theory Spec2Isabelle
  imports Main
begin

section \<open>Errors\<close>

text \<open>
  Go's \<open>error\<close> values. An error produced outside the package (by \<open>database/sql\<close>, the
  SQLite driver, \<open>os\<close>, the Prometheus registry or a metrics sink) is opaque to the package
  and is carried as \<open>External\<close> with its message. \<open>ErrZeroAttributes\<close> and
  \<open>ErrNotFoundKeyword\<close> are the two package-level values of \<open>index.go\<close>.
  \<open>Errorf_w e s\<close> is \<open>fmt.Errorf("%w: %v", e, v)\<close> with \<open>s\<close> the formatted \<open>v\<close>;
  \<open>Errorf s\<close> is \<open>fmt.Errorf\<close> without \<open>%w\<close>; \<open>PathError\<close> is the error of a failed
  \<open>os\<close> call; \<open>joinError\<close> is what \<open>errors.Join\<close> builds. A nil \<open>error\<close> is \<open>None\<close> of
  \<open>err option\<close>.
\<close>

type_synonym xerr = string

datatype err =
    External xerr
  | ErrZeroAttributes
  | ErrNotFoundKeyword
  | os_ErrNotExist
  | PathError string string err
  | Errorf string
  | Errorf_w err string
  | joinError "err list"

text \<open>\<open>errors.Is\<close>: the error itself, or anything reached by unwrapping it, equals the target.\<close>

fun Is :: "err \<Rightarrow> err \<Rightarrow> bool"
  and Is_any :: "err list \<Rightarrow> err \<Rightarrow> bool" where
  "Is (PathError op' p e) t = (PathError op' p e = t \<or> Is e t)"
| "Is (Errorf_w e s) t = (Errorf_w e s = t \<or> Is e t)"
| "Is (joinError es) t = (joinError es = t \<or> Is_any es t)"
| "Is (External x) t = (External x = t)"
| "Is ErrZeroAttributes t = (ErrZeroAttributes = t)"
| "Is ErrNotFoundKeyword t = (ErrNotFoundKeyword = t)"
| "Is os_ErrNotExist t = (os_ErrNotExist = t)"
| "Is (Errorf s) t = (Errorf s = t)"
| "Is_any [] t = False"
| "Is_any (e # es) t = (Is e t \<or> Is_any es t)"

definition errors_Is :: "err option \<Rightarrow> err \<Rightarrow> bool" where
  "errors_Is e t = (case e of None \<Rightarrow> False | Some e' \<Rightarrow> Is e' t)"

text \<open>\<open>errors.Join\<close>: nil when every argument is nil, else the non-nil arguments, in order.\<close>

fun non_nil :: "err option list \<Rightarrow> err list" where
  "non_nil [] = []"
| "non_nil (None # es) = non_nil es"
| "non_nil (Some e # es) = e # non_nil es"

definition errors_Join :: "err option list \<Rightarrow> err option" where
  "errors_Join es = (case non_nil es of [] \<Rightarrow> None | e # es' \<Rightarrow> Some (joinError (e # es')))"

section \<open>The environment: everything outside the package\<close>

text \<open>
  The calls the package makes to its collaborators. Whether such a call fails is not decided
  by the package: \<open>outcome\<close> gives, for each call, \<open>None\<close> when it succeeds and the error
  message when it fails. \<open>Next_row i\<close> is the call of \<open>rows.Next()\<close> that is to deliver the
  \<open>i\<close>-th row of a result set: when it fails (the context is done, the driver cannot step)
  it returns false like the end of the rows does, and the error stays in \<open>rows.Err()\<close>.
  \<open>Scan_row i\<close> is the \<open>Scan\<close> of that row, and \<open>ExecContext_insert i\<close> /
  \<open>ExecContext_delete i\<close> the \<open>i\<close>-th statement of a transaction. \<open>net_Listen p\<close> is the
  bind of an HTTP listener to port \<open>p\<close>. The match semantics of the FTS5 engine (\<open>fts_query\<close> for
  \<open>SELECT ... FROM fulltext_search(?)\<close>, \<open>id_match\<close> for \<open>WHERE id MATCH ?\<close>) and the
  \<open>%v\<close> formatting of a search term (\<open>fmt_v\<close>) are parameters as well.
\<close>

datatype ('k, 'v) call =
    os_Stat string
  | os_Create string
  | File_Close string
  | sql_Open string
  | QueryContext_exists
  | Next_count
  | Scan_count
  | ExecContext_create
  | QueryContext_search 'v
  | Next_row nat
  | Scan_row nat
  | BeginTx
  | ExecContext_insert nat 'k 'v
  | ExecContext_delete nat 'k
  | Commit
  | Rollback
  | DB_Close
  | net_Listen int
  | Sink_Shutdown nat
  | Sink_Close nat

record ('k, 'v) env =
  outcome :: "('k, 'v) call \<Rightarrow> xerr option"
  fts_query :: "'v \<Rightarrow> 'k \<times> 'v \<Rightarrow> bool"
  id_match :: "'k \<Rightarrow> 'k \<Rightarrow> bool"
  fmt_v :: "'v \<Rightarrow> string"

section \<open>The state the package acts on\<close>

datatype node = File | Dir

text \<open>The nine series of a metrics sink; a latency observation keeps its exemplar
  (the span of the context, if any), the measured wall-clock duration is not modelled.\<close>

record counts =
  searchesTotal :: nat
  searchesFailed :: nat
  searchesLatency :: "nat option list"
  insertsTotal :: nat
  insertsFailed :: nat
  insertsLatency :: "nat option list"
  deletesTotal :: nat
  deletesFailed :: nat
  deletesLatency :: "nat option list"

datatype release = ViaShutdown | ViaClose

datatype handler = TextHandler_Stderr | Handler nat

datatype logger = Logger handler

datatype level = Info | Warn

datatype ('k, 'v) lattr =
    A_term string 'v
  | A_keys string "'k list"
  | A_int string nat
  | A_error string err

datatype tracer = NoopTracer | Tracer nat

datatype sattr = S_string string string | S_int string nat

record span =
  span_tracer :: nat
  span_name :: string
  span_attrs :: "sattr list"
  span_status :: "err option"
  span_errors :: "err list"
  span_ended :: bool

text \<open>
  A context is represented by the span it carries (an index into \<open>spans\<close>), if any; its
  cancellation shows only through the outcome of the calls it is passed to.
  A \<open>*sql.DB\<close> is represented by the data source name it was opened with, and \<open>dbs\<close> holds
  the rows of the \<open>fulltext_search\<close> table behind each name, in insertion order
  (\<open>None\<close>: the table does not exist). \<open>listening\<close> holds the ports this process has
  bound; \<open>panicked\<close> says that a goroutine of the process has panicked, which ends the
  process.
\<close>

type_synonym ctx = "nat option"

record ('k, 'v) world =
  files :: "string \<rightharpoonup> node"
  dbs :: "string \<rightharpoonup> ('k \<times> 'v) list"
  counters :: "nat \<Rightarrow> counts"
  next_sink :: nat
  releases :: "(nat \<times> release) list"
  listening :: "int list"
  panicked :: bool
  log_out :: "(handler \<times> level \<times> string \<times> ('k, 'v) lattr list) list"
  spans :: "span list"

section \<open>database/sql over SQLite, as the package uses it\<close>

definition no_table :: xerr where
  "no_table = ''no such table: fulltext_search''"

text \<open>\<open>db.QueryContext(ctx, searchQuery, term)\<close>: the rows matching the term, or an error.\<close>

definition sql_QueryContext ::
  "('k, 'v) env \<Rightarrow> string \<Rightarrow> 'v \<Rightarrow> ('k, 'v) world \<Rightarrow> xerr + ('k \<times> 'v) list" where
  "sql_QueryContext env db term w =
     (case outcome env (QueryContext_search term) of
        Some e \<Rightarrow> Inl e
      | None \<Rightarrow> (case dbs w db of
                  None \<Rightarrow> Inl no_table
                | Some tbl \<Rightarrow> Inr (filter (fts_query env term) tbl)))"

text \<open>\<open>db.BeginTx\<close>: a transaction works on its own copy of the table until it commits.\<close>

definition sql_BeginTx ::
  "('k, 'v) env \<Rightarrow> string \<Rightarrow> ('k, 'v) world \<Rightarrow> xerr + ('k \<times> 'v) list option" where
  "sql_BeginTx env db w =
     (case outcome env BeginTx of Some e \<Rightarrow> Inl e | None \<Rightarrow> Inr (dbs w db))"

definition tx_insert ::
  "('k, 'v) env \<Rightarrow> nat \<Rightarrow> 'k \<times> 'v \<Rightarrow> ('k \<times> 'v) list option \<Rightarrow> xerr + ('k \<times> 'v) list option" where
  "tx_insert env idx a tx =
     (case outcome env (ExecContext_insert idx (fst a) (snd a)) of
        Some e \<Rightarrow> Inl e
      | None \<Rightarrow> (case tx of None \<Rightarrow> Inl no_table | Some tbl \<Rightarrow> Inr (Some (tbl @ [a]))))"

definition tx_delete ::
  "('k, 'v) env \<Rightarrow> nat \<Rightarrow> 'k \<Rightarrow> ('k \<times> 'v) list option \<Rightarrow> xerr + ('k \<times> 'v) list option" where
  "tx_delete env idx k tx =
     (case outcome env (ExecContext_delete idx k) of
        Some e \<Rightarrow> Inl e
      | None \<Rightarrow> (case tx of
                  None \<Rightarrow> Inl no_table
                | Some tbl \<Rightarrow> Inr (Some (filter (\<lambda>r. \<not> id_match env k (fst r)) tbl))))"

text \<open>\<open>tx.Commit\<close> publishes the transaction's table, or fails and publishes nothing;
  \<open>tx.Rollback\<close> publishes nothing either way, so only its error is kept.\<close>

definition tx_Commit ::
  "('k, 'v) env \<Rightarrow> string \<Rightarrow> ('k \<times> 'v) list option \<Rightarrow> ('k, 'v) world \<Rightarrow> xerr option \<times> ('k, 'v) world" where
  "tx_Commit env db tx w =
     (case outcome env Commit of
        Some e \<Rightarrow> (Some e, w)
      | None \<Rightarrow> (None, w\<lparr>dbs := (dbs w)(db := tx)\<rparr>))"

definition tx_Rollback :: "('k, 'v) env \<Rightarrow> xerr option" where
  "tx_Rollback env = outcome env Rollback"

definition extern :: "xerr option \<Rightarrow> err option" where
  "extern r = map_option External r"

section \<open>Index (index.go)\<close>

text \<open>The loop of \<open>Index.Search\<close>, \<open>for rows.Next() { ... }\<close>, over the rows of the result:
  it ends when \<open>Next\<close> returns false, at the end of the rows or when \<open>Next\<close> itself fails
  (the source does not read \<open>rows.Err()\<close>, so what was appended so far is the result); in
  the body each row is scanned and appended, and the first scan error is returned. The
  result slice starts empty (its capacity, \<open>minAlloc\<close>, does not show in its value).\<close>

fun scan_rows ::
  "('k, 'v) env \<Rightarrow> nat \<Rightarrow> ('k \<times> 'v) list \<Rightarrow> ('k \<times> 'v) list \<Rightarrow> xerr + ('k \<times> 'v) list" where
  "scan_rows env i [] res = Inr res"
| "scan_rows env i (r # rows) res =
     (case outcome env (Next_row i) of
        Some e \<Rightarrow> Inr res
      | None \<Rightarrow>
          (case outcome env (Scan_row i) of
             Some e \<Rightarrow> Inl e
           | None \<Rightarrow> scan_rows env (Suc i) rows (res @ [r])))"

text \<open>A result slice is a list; the nil slice is the empty list.\<close>

definition Index_Search ::
  "('k, 'v) env \<Rightarrow> ctx \<Rightarrow> 'v \<Rightarrow> string \<Rightarrow> ('k, 'v) world \<Rightarrow> ('k \<times> 'v) list \<times> err option" where
  "Index_Search env ctx searchTerm db w =
     (case sql_QueryContext env db searchTerm w of
        Inl e \<Rightarrow> ([], Some (External e))
      | Inr rows \<Rightarrow>
          (case scan_rows env 0 rows [] of
             Inl e \<Rightarrow> ([], Some (External e))
           | Inr res \<Rightarrow>
               if length res = 0
               then ([], Some (Errorf_w ErrNotFoundKeyword (fmt_v env searchTerm)))
               else (res, None)))"

text \<open>The loops of \<open>Index.Insert\<close> and \<open>Index.Delete\<close>: one statement per element, stop at
  the first error.\<close>

fun exec_inserts ::
  "('k, 'v) env \<Rightarrow> nat \<Rightarrow> ('k \<times> 'v) list \<Rightarrow> ('k \<times> 'v) list option \<Rightarrow> xerr + ('k \<times> 'v) list option" where
  "exec_inserts env idx [] tx = Inr tx"
| "exec_inserts env idx (a # attrs) tx =
     (case tx_insert env idx a tx of
        Inl e \<Rightarrow> Inl e
      | Inr tx' \<Rightarrow> exec_inserts env (Suc idx) attrs tx')"

fun exec_deletes ::
  "('k, 'v) env \<Rightarrow> nat \<Rightarrow> 'k list \<Rightarrow> ('k \<times> 'v) list option \<Rightarrow> xerr + ('k \<times> 'v) list option" where
  "exec_deletes env idx [] tx = Inr tx"
| "exec_deletes env idx (k # keys) tx =
     (case tx_delete env idx k tx of
        Inl e \<Rightarrow> Inl e
      | Inr tx' \<Rightarrow> exec_deletes env (Suc idx) keys tx')"

definition Index_Insert ::
  "('k, 'v) env \<Rightarrow> ctx \<Rightarrow> ('k \<times> 'v) list \<Rightarrow> string \<Rightarrow> ('k, 'v) world \<Rightarrow> err option \<times> ('k, 'v) world" where
  "Index_Insert env ctx attrs db w =
     (case sql_BeginTx env db w of
        Inl e \<Rightarrow> (Some (External e), w)
      | Inr tx \<Rightarrow>
          (case exec_inserts env 0 attrs tx of
             Inl e \<Rightarrow> (Some (External e), w)
           | Inr tx' \<Rightarrow>
               (case tx_Commit env db tx' w of
                  (Some e, w') \<Rightarrow> (extern (tx_Rollback env), w')
                | (None, w') \<Rightarrow> (None, w'))))"

definition Index_Delete ::
  "('k, 'v) env \<Rightarrow> ctx \<Rightarrow> 'k list \<Rightarrow> string \<Rightarrow> ('k, 'v) world \<Rightarrow> err option \<times> ('k, 'v) world" where
  "Index_Delete env ctx keys db w =
     (case sql_BeginTx env db w of
        Inl e \<Rightarrow> (Some (External e), w)
      | Inr tx \<Rightarrow>
          (case exec_deletes env 0 keys tx of
             Inl e \<Rightarrow> (Some (External e), w)
           | Inr tx' \<Rightarrow>
               (case tx_Commit env db tx' w of
                  (Some e, w') \<Rightarrow> (extern (tx_Rollback env), w')
                | (None, w') \<Rightarrow> (None, w'))))"

definition Index_Shutdown ::
  "('k, 'v) env \<Rightarrow> ctx \<Rightarrow> string \<Rightarrow> ('k, 'v) world \<Rightarrow> err option \<times> ('k, 'v) world" where
  "Index_Shutdown env ctx db w = (extern (outcome env DB_Close), w)"

section \<open>Sinks: metrics, logger, tracer\<close>

text \<open>
  A value of the \<open>Metrics\<close> interface: the sink it updates, and which of the optional
  \<open>Shutdown(ctx) error\<close> and \<open>Close() error\<close> methods its dynamic type has. \<open>sink_port\<close> is
  the port of the HTTP server of the package's own sink (\<open>metrics.New\<close>).
\<close>

record Metrics =
  sink_id :: nat
  has_Shutdown :: bool
  has_Close :: bool
  sink_port :: "int option"

definition upd_counts :: "Metrics \<Rightarrow> (counts \<Rightarrow> counts) \<Rightarrow> ('k, 'v) world \<Rightarrow> ('k, 'v) world" where
  "upd_counts m f w = w\<lparr>counters := (counters w)(sink_id m := f (counters w (sink_id m)))\<rparr>"

definition IncSearchesTotal :: "Metrics \<Rightarrow> ('k, 'v) world \<Rightarrow> ('k, 'v) world" where
  "IncSearchesTotal m = upd_counts m (\<lambda>c. c\<lparr>searchesTotal := Suc (searchesTotal c)\<rparr>)"

definition IncSearchesFailed :: "Metrics \<Rightarrow> ('k, 'v) world \<Rightarrow> ('k, 'v) world" where
  "IncSearchesFailed m = upd_counts m (\<lambda>c. c\<lparr>searchesFailed := Suc (searchesFailed c)\<rparr>)"

definition ObserveSearchLatency :: "Metrics \<Rightarrow> ctx \<Rightarrow> ('k, 'v) world \<Rightarrow> ('k, 'v) world" where
  "ObserveSearchLatency m ctx = upd_counts m (\<lambda>c. c\<lparr>searchesLatency := searchesLatency c @ [ctx]\<rparr>)"

definition IncInsertsTotal :: "Metrics \<Rightarrow> ('k, 'v) world \<Rightarrow> ('k, 'v) world" where
  "IncInsertsTotal m = upd_counts m (\<lambda>c. c\<lparr>insertsTotal := Suc (insertsTotal c)\<rparr>)"

definition IncInsertsFailed :: "Metrics \<Rightarrow> ('k, 'v) world \<Rightarrow> ('k, 'v) world" where
  "IncInsertsFailed m = upd_counts m (\<lambda>c. c\<lparr>insertsFailed := Suc (insertsFailed c)\<rparr>)"

definition ObserveInsertLatency :: "Metrics \<Rightarrow> ctx \<Rightarrow> ('k, 'v) world \<Rightarrow> ('k, 'v) world" where
  "ObserveInsertLatency m ctx = upd_counts m (\<lambda>c. c\<lparr>insertsLatency := insertsLatency c @ [ctx]\<rparr>)"

definition IncDeletesTotal :: "Metrics \<Rightarrow> ('k, 'v) world \<Rightarrow> ('k, 'v) world" where
  "IncDeletesTotal m = upd_counts m (\<lambda>c. c\<lparr>deletesTotal := Suc (deletesTotal c)\<rparr>)"

definition IncDeletesFailed :: "Metrics \<Rightarrow> ('k, 'v) world \<Rightarrow> ('k, 'v) world" where
  "IncDeletesFailed m = upd_counts m (\<lambda>c. c\<lparr>deletesFailed := Suc (deletesFailed c)\<rparr>)"

definition ObserveDeleteLatency :: "Metrics \<Rightarrow> ctx \<Rightarrow> ('k, 'v) world \<Rightarrow> ('k, 'v) world" where
  "ObserveDeleteLatency m ctx = upd_counts m (\<lambda>c. c\<lparr>deletesLatency := deletesLatency c @ [ctx]\<rparr>)"

text \<open>The type switch of \<open>metricsIndexer.Shutdown\<close>: the first case that matches the sink's
  dynamic type is taken, \<open>Shutdown\<close> before \<open>Close\<close>; a sink with neither is left alone. The
  \<open>Shutdown\<close> of the package's own sink shuts its HTTP server down, which closes the
  listener whatever error it returns.\<close>

definition sink_release ::
  "('k, 'v) env \<Rightarrow> Metrics \<Rightarrow> ('k, 'v) world \<Rightarrow> err option \<times> ('k, 'v) world" where
  "sink_release env m w =
     (if has_Shutdown m
      then (extern (outcome env (Sink_Shutdown (sink_id m))),
            w\<lparr>releases := releases w @ [(sink_id m, ViaShutdown)],
              listening := (case sink_port m of
                              None \<Rightarrow> listening w
                            | Some p \<Rightarrow> removeAll p (listening w))\<rparr>)
      else if has_Close m
      then (extern (outcome env (Sink_Close (sink_id m))),
            w\<lparr>releases := releases w @ [(sink_id m, ViaClose)]\<rparr>)
      else (None, w))"

definition zero_counts :: counts where
  "zero_counts = \<lparr>searchesTotal = 0, searchesFailed = 0, searchesLatency = [],
                  insertsTotal = 0, insertsFailed = 0, insertsLatency = [],
                  deletesTotal = 0, deletesFailed = 0, deletesLatency = []\<rparr>"

text \<open>\<open>Registry()\<close> (metrics/prom.go) registers the Go collector, the process collector and
  the nine series of the sink, in this order, on a registry of its own; a registration fails
  on a name the registry already holds.\<close>

definition collectors :: "string list" where
  "collectors =
     [''go_collector'', ''process_collector'',
      ''searches_received_total'', ''searches_failed_total'', ''search_handling_latency_seconds'',
      ''inserts_received_total'', ''inserts_failed_total'', ''insert_handling_latency_seconds'',
      ''deletes_received_total'', ''deletes_failed_total'', ''delete_handling_latency_seconds'']"

fun Register_all :: "string list \<Rightarrow> string list \<Rightarrow> err + string list" where
  "Register_all reg [] = Inr reg"
| "Register_all reg (c # cs) =
     (if c \<in> set reg
      then Inl (External ''duplicate metrics collector registration attempted'')
      else Register_all (reg @ [c]) cs)"

definition Registry :: "err + string list" where
  "Registry = Register_all [] collectors"

text \<open>\<open>newServer(port, registry)\<close> starts a goroutine that listens on the port and panics when
  it cannot: the port is taken, by this process (a port other than 0, which lets the
  system choose) or by another one. The panic of a goroutine ends the process; the call
  that started it returns all the same.\<close>

definition newServer :: "('k, 'v) env \<Rightarrow> int \<Rightarrow> ('k, 'v) world \<Rightarrow> ('k, 'v) world" where
  "newServer env port w =
     (if (port \<noteq> 0 \<and> port \<in> set (listening w)) \<or> outcome env (net_Listen port) \<noteq> None
      then w\<lparr>panicked := True\<rparr>
      else w\<lparr>listening := port # listening w\<rparr>)"

text \<open>\<open>metrics.New(port)\<close>: fresh series, registered, and the HTTP server started.\<close>

definition metrics_New ::
  "('k, 'v) env \<Rightarrow> int \<Rightarrow> ('k, 'v) world \<Rightarrow> (err + Metrics) \<times> ('k, 'v) world" where
  "metrics_New env port w =
     (let port' = (if port < 0 then 0 else port) in
      case Registry of
        Inl e \<Rightarrow> (Inl e, w)
      | Inr reg \<Rightarrow>
          (Inr \<lparr>sink_id = next_sink w, has_Shutdown = True, has_Close = False,
                sink_port = Some port'\<rparr>,
           newServer env port'
             (w\<lparr>counters := (counters w)(next_sink w := zero_counts),
                next_sink := Suc (next_sink w)\<rparr>)))"

definition slog_New :: "handler \<Rightarrow> logger" where
  "slog_New h = Logger h"

definition log_record ::
  "logger \<Rightarrow> level \<Rightarrow> string \<Rightarrow> ('k, 'v) lattr list \<Rightarrow> ('k, 'v) world \<Rightarrow> ('k, 'v) world" where
  "log_record lg lv msg attrs w =
     (case lg of Logger h \<Rightarrow> w\<lparr>log_out := log_out w @ [(h, lv, msg, attrs)]\<rparr>)"

definition InfoContext ::
  "logger \<Rightarrow> ctx \<Rightarrow> string \<Rightarrow> ('k, 'v) lattr list \<Rightarrow> ('k, 'v) world \<Rightarrow> ('k, 'v) world" where
  "InfoContext lg ctx msg attrs = log_record lg Info msg attrs"

definition WarnContext ::
  "logger \<Rightarrow> ctx \<Rightarrow> string \<Rightarrow> ('k, 'v) lattr list \<Rightarrow> ('k, 'v) world \<Rightarrow> ('k, 'v) world" where
  "WarnContext lg ctx msg attrs = log_record lg Warn msg attrs"

text \<open>\<open>tracer.Start\<close>: a recording tracer opens a span and puts it into the context; the
  no-op tracer opens none and its context carries no valid span.\<close>

definition tracer_Start ::
  "tracer \<Rightarrow> ctx \<Rightarrow> string \<Rightarrow> sattr list \<Rightarrow> ('k, 'v) world \<Rightarrow> (ctx \<times> nat option) \<times> ('k, 'v) world" where
  "tracer_Start tr ctx name attrs w =
     (case tr of
        NoopTracer \<Rightarrow> ((None, None), w)
      | Tracer n \<Rightarrow>
          ((Some (length (spans w)), Some (length (spans w))),
           w\<lparr>spans := spans w @ [\<lparr>span_tracer = n, span_name = name, span_attrs = attrs,
                                  span_status = None, span_errors = [], span_ended = False\<rparr>]\<rparr>))"

definition span_upd :: "nat option \<Rightarrow> (span \<Rightarrow> span) \<Rightarrow> ('k, 'v) world \<Rightarrow> ('k, 'v) world" where
  "span_upd sp f w =
     (case sp of
        None \<Rightarrow> w
      | Some i \<Rightarrow> if i < length (spans w) then w\<lparr>spans := (spans w)[i := f (spans w ! i)]\<rparr> else w)"

definition span_SetStatus :: "nat option \<Rightarrow> err \<Rightarrow> ('k, 'v) world \<Rightarrow> ('k, 'v) world" where
  "span_SetStatus sp e = span_upd sp (\<lambda>s. s\<lparr>span_status := Some e\<rparr>)"

definition span_RecordError :: "nat option \<Rightarrow> err \<Rightarrow> ('k, 'v) world \<Rightarrow> ('k, 'v) world" where
  "span_RecordError sp e = span_upd sp (\<lambda>s. s\<lparr>span_errors := span_errors s @ [e]\<rparr>)"

definition span_SetAttributes :: "nat option \<Rightarrow> sattr list \<Rightarrow> ('k, 'v) world \<Rightarrow> ('k, 'v) world" where
  "span_SetAttributes sp attrs = span_upd sp (\<lambda>s. s\<lparr>span_attrs := span_attrs s @ attrs\<rparr>)"

definition span_End :: "nat option \<Rightarrow> ('k, 'v) world \<Rightarrow> ('k, 'v) world" where
  "span_End sp = span_upd sp (\<lambda>s. s\<lparr>span_ended := True\<rparr>)"

section \<open>The Indexer interface and its five implementations\<close>

text \<open>
  A non-nil value of the \<open>Indexer\<close> interface, by dynamic type. The nil interface value is
  \<open>None\<close> of \<open>indexer option\<close>; the constructors never store it in a decorator.
\<close>

datatype indexer =
    noOpIndexer
  | Index string
  | loggedIndexer indexer logger
  | metricsIndexer indexer Metrics
  | tracedIndexer indexer tracer

definition NoOp :: indexer where
  "NoOp = noOpIndexer"

fun Search ::
  "('k, 'v) env \<Rightarrow> ctx \<Rightarrow> 'v \<Rightarrow> indexer \<Rightarrow> ('k, 'v) world
     \<Rightarrow> (('k \<times> 'v) list \<times> err option) \<times> ('k, 'v) world" where
  "Search env ctx searchTerm noOpIndexer w = (([], None), w)"
| "Search env ctx searchTerm (Index db) w = (Index_Search env ctx searchTerm db w, w)"
| "Search env ctx searchTerm (loggedIndexer i lg) w =
     (let w1 = InfoContext lg ctx ''finding matches for search term''
                 [A_term ''search_term'' searchTerm] w;
          ((res, er), w2) = Search env ctx searchTerm i w1;
          w3 = (case er of
                  Some e \<Rightarrow> WarnContext lg ctx ''error when finding matches'' [A_error ''error'' e] w2
                | None \<Rightarrow> w2)
      in ((res, er), w3))"
| "Search env ctx searchTerm (metricsIndexer i m) w =
     (let w1 = IncSearchesTotal m w;
          ((res, er), w2) = Search env ctx searchTerm i w1;
          w3 = (if er \<noteq> None then IncSearchesFailed m w2 else w2);
          w4 = ObserveSearchLatency m ctx w3
      in ((res, er), w4))"
| "Search env ctx searchTerm (tracedIndexer i tr) w =
     (let ((ctx', sp), w1) = tracer_Start tr ctx ''search''
                               [S_string ''search_term'' (fmt_v env searchTerm)] w;
          ((res, er), w2) = Search env ctx' searchTerm i w1;
          w3 = (case er of
                  Some e \<Rightarrow> span_RecordError sp e (span_SetStatus sp e w2)
                | None \<Rightarrow> span_SetAttributes sp [S_int ''num_results'' (length res)] w2)
      in ((res, er), span_End sp w3))"

fun Insert ::
  "('k, 'v) env \<Rightarrow> ctx \<Rightarrow> ('k \<times> 'v) list \<Rightarrow> indexer \<Rightarrow> ('k, 'v) world
     \<Rightarrow> err option \<times> ('k, 'v) world" where
  "Insert env ctx attrs noOpIndexer w = (None, w)"
| "Insert env ctx attrs (Index db) w = Index_Insert env ctx attrs db w"
| "Insert env ctx attrs (loggedIndexer i lg) w =
     (let w1 = InfoContext lg ctx ''inserting attributes''
                 [A_int ''num_attributes'' (length attrs)] w;
          (er, w2) = Insert env ctx attrs i w1
      in case er of
           Some e \<Rightarrow> (Some e, WarnContext lg ctx ''failed to insert attributes''
                                [A_error ''error'' e] w2)
         | None \<Rightarrow> (None, w2))"
| "Insert env ctx attrs (metricsIndexer i m) w =
     (let w1 = IncInsertsTotal m w;
          (er, w2) = Insert env ctx attrs i w1;
          w3 = (if er \<noteq> None then IncInsertsFailed m w2 else w2);
          w4 = ObserveInsertLatency m ctx w3
      in (er, w4))"
| "Insert env ctx attrs (tracedIndexer i tr) w =
     (let ((ctx', sp), w1) = tracer_Start tr ctx ''insert''
                               [S_int ''num_attributes'' (length attrs)] w;
          (er, w2) = Insert env ctx' attrs i w1;
          w3 = (case er of
                  Some e \<Rightarrow> span_RecordError sp e (span_SetStatus sp e w2)
                | None \<Rightarrow> w2)
      in (er, span_End sp w3))"

fun Delete ::
  "('k, 'v) env \<Rightarrow> ctx \<Rightarrow> 'k list \<Rightarrow> indexer \<Rightarrow> ('k, 'v) world
     \<Rightarrow> err option \<times> ('k, 'v) world" where
  "Delete env ctx keys noOpIndexer w = (None, w)"
| "Delete env ctx keys (Index db) w = Index_Delete env ctx keys db w"
| "Delete env ctx keys (loggedIndexer i lg) w =
     (let w1 = InfoContext lg ctx ''deleting keys'' [A_keys ''keys'' keys] w;
          (er, w2) = Delete env ctx keys i w1
      in case er of
           Some e \<Rightarrow> (Some e, WarnContext lg ctx ''failed to delete indexed items''
                                [A_error ''error'' e] w2)
         | None \<Rightarrow> (None, w2))"
| "Delete env ctx keys (metricsIndexer i m) w =
     (let w1 = IncDeletesTotal m w;
          (er, w2) = Delete env ctx keys i w1;
          w3 = (if er \<noteq> None then IncDeletesFailed m w2 else w2);
          w4 = ObserveDeleteLatency m ctx w3
      in (er, w4))"
| "Delete env ctx keys (tracedIndexer i tr) w =
     (let ((ctx', sp), w1) = tracer_Start tr ctx ''delete''
                               [S_int ''num_keys'' (length keys)] w;
          (er, w2) = Delete env ctx' keys i w1;
          w3 = (case er of
                  Some e \<Rightarrow> span_RecordError sp e (span_SetStatus sp e w2)
                | None \<Rightarrow> w2)
      in (er, span_End sp w3))"

fun Shutdown ::
  "('k, 'v) env \<Rightarrow> ctx \<Rightarrow> indexer \<Rightarrow> ('k, 'v) world \<Rightarrow> err option \<times> ('k, 'v) world" where
  "Shutdown env ctx noOpIndexer w = (None, w)"
| "Shutdown env ctx (Index db) w = Index_Shutdown env ctx db w"
| "Shutdown env ctx (loggedIndexer i lg) w =
     (let w1 = InfoContext lg ctx ''shutting down Indexer'' [] w;
          (er, w2) = Shutdown env ctx i w1
      in case er of
           Some e \<Rightarrow> (Some e, WarnContext lg ctx ''failed to gracefully shut down''
                                [A_error ''error'' e] w2)
         | None \<Rightarrow> (None, w2))"
| "Shutdown env ctx (metricsIndexer i m) w =
     (let (er, w1) = sink_release env m w;
          (er', w2) = Shutdown env ctx i w1
      in (errors_Join [er', er], w2))"
| "Shutdown env ctx (tracedIndexer i tr) w = Shutdown env ctx i w"

section \<open>The decorating constructors\<close>

definition IndexerWithLogs :: "indexer option \<Rightarrow> handler option \<Rightarrow> indexer" where
  "IndexerWithLogs indexer h =
     (case indexer of
        None \<Rightarrow> NoOp
      | Some ix \<Rightarrow>
          (let h' = (case h of None \<Rightarrow> TextHandler_Stderr | Some h0 \<Rightarrow> h0) in
           case ix of
             loggedIndexer i lg \<Rightarrow> loggedIndexer i (slog_New h')
           | _ \<Rightarrow> loggedIndexer ix (slog_New h')))"

definition IndexerWithMetrics ::
  "('k, 'v) env \<Rightarrow> indexer option \<Rightarrow> Metrics option \<Rightarrow> ('k, 'v) world \<Rightarrow> indexer \<times> ('k, 'v) world" where
  "IndexerWithMetrics env indexer m w =
     (case indexer of
        None \<Rightarrow> (NoOp, w)
      | Some ix \<Rightarrow>
          (case (case m of
                   Some m0 \<Rightarrow> (Inr m0, w)
                 | None \<Rightarrow> metrics_New env 8080 w) of
             (Inl e, w') \<Rightarrow> (ix, w')
           | (Inr m', w') \<Rightarrow>
               (case ix of
                  metricsIndexer i m0 \<Rightarrow> (metricsIndexer i m', w')
                | _ \<Rightarrow> (metricsIndexer ix m', w'))))"

definition IndexerWithTrace :: "indexer option \<Rightarrow> tracer option \<Rightarrow> indexer" where
  "IndexerWithTrace indexer tr =
     (case indexer of
        None \<Rightarrow> NoOp
      | Some ix \<Rightarrow>
          (let tr' = (case tr of None \<Rightarrow> NoopTracer | Some t0 \<Rightarrow> t0) in
           case ix of
             tracedIndexer i t0 \<Rightarrow> tracedIndexer i tr'
           | _ \<Rightarrow> tracedIndexer ix tr'))"

section \<open>Opening the database (database.go)\<close>

definition inMemory :: string where
  "inMemory = '':memory:''"

definition uriFormat :: "string \<Rightarrow> string" where
  "uriFormat u = ''file:'' @ u @ ''?cache=shared''"

text \<open>\<open>os.Stat\<close>, \<open>os.Create\<close> and \<open>f.Close\<close> over the file table; the error of a path
  that does not exist is the one \<open>errors.Is\<close> recognises as \<open>os.ErrNotExist\<close>.\<close>

definition Stat :: "('k, 'v) env \<Rightarrow> string \<Rightarrow> ('k, 'v) world \<Rightarrow> err + node" where
  "Stat env p w =
     (case outcome env (os_Stat p) of
        Some e \<Rightarrow> Inl (PathError ''stat'' p (External e))
      | None \<Rightarrow> (case files w p of
                  None \<Rightarrow> Inl (PathError ''stat'' p os_ErrNotExist)
                | Some n \<Rightarrow> Inr n))"

definition Create :: "('k, 'v) env \<Rightarrow> string \<Rightarrow> ('k, 'v) world \<Rightarrow> err option \<times> ('k, 'v) world" where
  "Create env p w =
     (case outcome env (os_Create p) of
        Some e \<Rightarrow> (Some (PathError ''open'' p (External e)), w)
      | None \<Rightarrow> (None, w\<lparr>files := (files w)(p \<mapsto> File)\<rparr>))"

definition validateURI ::
  "('k, 'v) env \<Rightarrow> string \<Rightarrow> ('k, 'v) world \<Rightarrow> err option \<times> ('k, 'v) world" where
  "validateURI env u w =
     (case Stat env u w of
        Inl e \<Rightarrow>
          if errors_Is (Some e) os_ErrNotExist
          then (case Create env u w of
                  (Some e', w') \<Rightarrow> (Some e', w')
                | (None, w') \<Rightarrow> (extern (outcome env (File_Close u)), w'))
          else (Some e, w)
      | Inr stat \<Rightarrow>
          if stat = Dir
          then (Some (Errorf (u @ '' is a directory'')), w)
          else (None, w))"

text \<open>\<open>sql.Open("sqlite", dsn)\<close>: a handle for the data source name, or an error.\<close>

definition Open :: "('k, 'v) env \<Rightarrow> string \<Rightarrow> err + string" where
  "Open env dsn =
     (case outcome env (sql_Open dsn) of Some e \<Rightarrow> Inl (External e) | None \<Rightarrow> Inr dsn)"

definition open_db ::
  "('k, 'v) env \<Rightarrow> string \<Rightarrow> ('k, 'v) world \<Rightarrow> (err + string) \<times> ('k, 'v) world" where
  "open_db env u w =
     (if u = inMemory then (Open env (uriFormat u), w)
      else if u = [] then (Open env (uriFormat inMemory), w)
      else (case validateURI env u w of
              (Some e, w') \<Rightarrow> (Inl e, w')
            | (None, w') \<Rightarrow> (Open env (uriFormat u), w')))"

text \<open>\<open>CREATE VIRTUAL TABLE fulltext_search\<close>: fails when the table is there already.\<close>

definition createTable ::
  "('k, 'v) env \<Rightarrow> string \<Rightarrow> ('k, 'v) world \<Rightarrow> err option \<times> ('k, 'v) world" where
  "createTable env db w =
     (case outcome env ExecContext_create of
        Some e \<Rightarrow> (Some (External e), w)
      | None \<Rightarrow>
          (case dbs w db of
             Some tbl \<Rightarrow> (Some (External ''table fulltext_search already exists''), w)
           | None \<Rightarrow> (None, w\<lparr>dbs := (dbs w)(db \<mapsto> [])\<rparr>)))"

text \<open>\<open>initDatabase\<close>: the existence query returns one row, 1 when the table is there. The
  loop returns at a count of 1; when it ends otherwise (the count is not 1, or \<open>Next\<close>
  failed and delivered no row) the table is created.\<close>

definition initDatabase ::
  "('k, 'v) env \<Rightarrow> string \<Rightarrow> ('k, 'v) world \<Rightarrow> err option \<times> ('k, 'v) world" where
  "initDatabase env db w =
     (case outcome env QueryContext_exists of
        Some e \<Rightarrow> (Some (External e), w)
      | None \<Rightarrow>
          (case outcome env Next_count of
             Some e \<Rightarrow> createTable env db w
           | None \<Rightarrow>
               (case outcome env Scan_count of
                  Some e \<Rightarrow> (Some (External e), w)
                | None \<Rightarrow>
                    (let count = (if dbs w db = None then 0 else 1 :: nat) in
                     if count = 1 then (None, w)
                     else createTable env db w))))"

text \<open>\<open>NewIndex\<close>: \<open>Inr db\<close> stands for the \<open>*Index\<close> holding \<open>db\<close>. When the initial load
  fails the handle is closed and both errors are joined (the load error is not nil, so the
  join is not nil either).\<close>

definition NewIndex ::
  "('k, 'v) env \<Rightarrow> string \<Rightarrow> ('k \<times> 'v) list \<Rightarrow> ('k, 'v) world \<Rightarrow> (err + string) \<times> ('k, 'v) world" where
  "NewIndex env u attrs w =
     (case open_db env u w of
        (Inl e, w1) \<Rightarrow> (Inl e, w1)
      | (Inr db, w1) \<Rightarrow>
          (case initDatabase env db w1 of
             (Some e, w2) \<Rightarrow> (Inl e, w2)
           | (None, w2) \<Rightarrow>
               if length attrs > 0
               then (case Index_Insert env None attrs db w2 of
                       (Some e, w3) \<Rightarrow>
                         (case Index_Shutdown env None db w3 of
                            (closeErr, w4) \<Rightarrow> (Inl (joinError (non_nil [Some e, closeErr])), w4))
                     | (None, w3) \<Rightarrow> (Inr db, w3))
               else (Inr db, w2)))"

section \<open>Configuration and New (indexer.go)\<close>

record Config =
  uri :: string
  logHandler :: "handler option"
  metrics :: "Metrics option"
  tracer :: "tracer option"

text \<open>The options. \<open>WithLogger\<close> reads the handler of its logger when the option is applied;
  on a nil logger that read panics, which is \<open>None\<close> here.\<close>

datatype opt =
    WithURI string
  | WithLogger "logger option"
  | WithLogHandler "handler option"
  | WithMetrics "Metrics option"
  | WithTrace "tracer option"

fun apply_opt :: "opt \<Rightarrow> Config \<Rightarrow> Config option" where
  "apply_opt (WithURI u) config = Some (config\<lparr>uri := u\<rparr>)"
| "apply_opt (WithLogger None) config = None"
| "apply_opt (WithLogger (Some (Logger h))) config = Some (config\<lparr>logHandler := Some h\<rparr>)"
| "apply_opt (WithLogHandler h) config = Some (config\<lparr>logHandler := h\<rparr>)"
| "apply_opt (WithMetrics m) config = Some (config\<lparr>metrics := m\<rparr>)"
| "apply_opt (WithTrace t) config = Some (config\<lparr>tracer := t\<rparr>)"

text \<open>\<open>cfg.New\<close> (an imported package): the options applied in the order given, starting from
  the zero \<open>Config\<close>.\<close>

fun cfg_Set :: "Config \<Rightarrow> opt list \<Rightarrow> Config option" where
  "cfg_Set config [] = Some config"
| "cfg_Set config (x # opts) =
     (case apply_opt x config of None \<Rightarrow> None | Some config' \<Rightarrow> cfg_Set config' opts)"

definition zero_Config :: Config where
  "zero_Config = \<lparr>uri = [], logHandler = None, metrics = None, tracer = None\<rparr>"

definition cfg_New :: "opt list \<Rightarrow> Config option" where
  "cfg_New opts = cfg_Set zero_Config opts"

text \<open>\<open>New\<close>; \<open>None\<close> when applying the options panics.\<close>

definition New ::
  "('k, 'v) env \<Rightarrow> ('k \<times> 'v) list \<Rightarrow> opt list \<Rightarrow> ('k, 'v) world
     \<Rightarrow> ((indexer \<times> err option) \<times> ('k, 'v) world) option" where
  "New env attributes opts w =
     (case cfg_New opts of
        None \<Rightarrow> None
      | Some config \<Rightarrow>
          Some (case NewIndex env (uri config) attributes w of
                  (Inl e, w1) \<Rightarrow> ((NoOp, Some e), w1)
                | (Inr db, w1) \<Rightarrow>
                    (let i0 = Index db;
                         i1 = (if logHandler config \<noteq> None
                               then IndexerWithLogs (Some i0) (logHandler config) else i0);
                         (i2, w2) = (if metrics config \<noteq> None
                                     then IndexerWithMetrics env (Some i1) (metrics config) w1
                                     else (i1, w1));
                         i3 = (if tracer config \<noteq> None
                               then IndexerWithTrace (Some i2) (tracer config) else i2)
                     in ((i3, None), w2))))"

section \<open>Concrete environments and states\<close>

text \<open>A small engine for the examples: keys are numbers, values are strings, a value matches
  a term when the term is one of its space-separated words, a key matches itself.\<close>

fun words_of :: "string \<Rightarrow> string \<Rightarrow> string list" where
  "words_of cur [] = (if cur = [] then [] else [cur])"
| "words_of cur (c # cs) =
     (if c = CHR '' '' then (if cur = [] then words_of [] cs else cur # words_of [] cs)
      else words_of (cur @ [c]) cs)"

definition ok_env :: "(nat, string) env" where
  "ok_env = \<lparr>outcome = (\<lambda>c. None),
             fts_query = (\<lambda>t r. t \<in> set (words_of [] (snd r))),
             id_match = (\<lambda>k k'. k = k'),
             fmt_v = (\<lambda>v. v)\<rparr>"

definition failing :: "((nat, string) call \<times> xerr) list \<Rightarrow> (nat, string) env" where
  "failing fs = ok_env\<lparr>outcome := map_of fs\<rparr>"

definition mem :: string where
  "mem = ''file::memory:?cache=shared''"

definition world0 :: "(nat \<times> string) list option \<Rightarrow> (nat, string) world" where
  "world0 tbl = \<lparr>files = [''/data'' \<mapsto> Dir, ''/data/index.db'' \<mapsto> File],
                 dbs = (\<lambda>d. if d = mem then tbl else None),
                 counters = (\<lambda>n. zero_counts),
                 next_sink = 0,
                 releases = [],
                 listening = [],
                 panicked = False,
                 log_out = [],
                 spans = []\<rparr>"

definition metals :: "(nat \<times> string) list" where
  "metals = [(1, ''some data''), (2, ''struck gold''), (3, ''some kind of copper''),
             (4, ''probably bronze'')]"

definition err_locked :: xerr where
  "err_locked = ''database is locked''"

definition err_tx_done :: xerr where
  "err_tx_done = ''sql: transaction has already been committed or rolled back''"

definition err_closed :: xerr where
  "err_closed = ''sql: database is closed''"

definition err_canceled :: xerr where
  "err_canceled = ''context canceled''"

definition err_in_use :: xerr where
  "err_in_use = ''listen tcp :8080: bind: address already in use''"

definition err_server :: xerr where
  "err_server = ''context deadline exceeded''"

definition prom :: "nat \<Rightarrow> Metrics" where
  "prom n = \<lparr>sink_id = n, has_Shutdown = True, has_Close = False, sink_port = Some 8080\<rparr>"

section \<open>Wrapping depth and repeated decoration\<close>

fun depth :: "indexer \<Rightarrow> nat" where
  "depth noOpIndexer = 0"
| "depth (Index db) = 0"
| "depth (loggedIndexer i lg) = Suc (depth i)"
| "depth (metricsIndexer i m) = Suc (depth i)"
| "depth (tracedIndexer i tr) = Suc (depth i)"

text \<open>The same constructor applied again and again, once for each sink of a list.\<close>

fun relog :: "indexer \<Rightarrow> handler option list \<Rightarrow> indexer" where
  "relog ix [] = ix"
| "relog ix (h # hs) = relog (IndexerWithLogs (Some ix) h) hs"

fun retrace :: "indexer \<Rightarrow> tracer option list \<Rightarrow> indexer" where
  "retrace ix [] = ix"
| "retrace ix (t # ts) = retrace (IndexerWithTrace (Some ix) t) ts"

fun remetric ::
  "('k, 'v) env \<Rightarrow> indexer \<Rightarrow> Metrics option list \<Rightarrow> ('k, 'v) world \<Rightarrow> indexer \<times> ('k, 'v) world" where
  "remetric env ix [] w = (ix, w)"
| "remetric env ix (m # ms) w =
     (case IndexerWithMetrics env (Some ix) m w of (ix', w') \<Rightarrow> remetric env ix' ms w')"

section \<open>The sinks an indexer reports to\<close>

fun sinks_of :: "indexer \<Rightarrow> nat set" where
  "sinks_of noOpIndexer = {}"
| "sinks_of (Index db) = {}"
| "sinks_of (loggedIndexer i lg) = sinks_of i"
| "sinks_of (metricsIndexer i m) = insert (sink_id m) (sinks_of i)"
| "sinks_of (tracedIndexer i tr) = sinks_of i"

section \<open>Errors: basic facts\<close>

lemma Is_refl: "Is e e"
  by (cases e) simp_all

section \<open>Index.Search\<close>

lemma scan_rows_error:
  "scan_rows env i rows res = Inl x \<Longrightarrow> \<exists>j. outcome env (Scan_row j) = Some x"
  by (induction rows arbitrary: i res) (auto split: option.splits)

lemma scan_rows_complete:
  "\<forall>j. outcome env (Next_row j) = None \<Longrightarrow> scan_rows env i rows res = Inr res'
     \<Longrightarrow> res' = res @ rows"
proof (induction rows arbitrary: i res)
  case Nil
  then show ?case by simp
next
  case (Cons r rows)
  from Cons.prems have "scan_rows env (Suc i) rows (res @ [r]) = Inr res'"
    by (simp split: option.splits)
  with Cons.prems(1) have "res' = (res @ [r]) @ rows" by (rule Cons.IH)
  then show ?case by simp
qed

text \<open>A failing query and a failing scan are returned as they are.\<close>

lemma Index_Search_query_error:
  "sql_QueryContext env db searchTerm w = Inl x
     \<Longrightarrow> fst (Search env ctx searchTerm (Index db) w) = ([], Some (External x))"
  by (simp add: Index_Search_def)

lemma Index_Search_scan_error:
  "sql_QueryContext env db searchTerm w = Inr rows \<Longrightarrow> scan_rows env 0 rows [] = Inl x
     \<Longrightarrow> fst (Search env ctx searchTerm (Index db) w) = ([], Some (External x))"
  by (simp add: Index_Search_def)

lemma Index_Search_first_scan_error:
  "sql_QueryContext env db searchTerm w = Inr (r # rows) \<Longrightarrow> outcome env (Next_row 0) = None
     \<Longrightarrow> outcome env (Scan_row 0) = Some x
     \<Longrightarrow> fst (Search env ctx searchTerm (Index db) w) = ([], Some (External x))"
  by (simp add: Index_Search_def)

text \<open>As long as no call of \<open>Next\<close> fails, the error is \<open>ErrNotFoundKeyword\<close> exactly when
  the query ran and produced no row.\<close>

lemma Index_Search_not_found_without_iteration_error:
  assumes "\<forall>j. outcome env (Next_row j) = None"
  shows "errors_Is (snd (fst (Search env ctx searchTerm (Index db) w))) ErrNotFoundKeyword
           \<longleftrightarrow> sql_QueryContext env db searchTerm w = Inr []"
proof (cases "sql_QueryContext env db searchTerm w")
  case (Inl x)
  then show ?thesis
    by (simp add: Index_Search_def errors_Is_def)
next
  case query: (Inr rows)
  show ?thesis
  proof (cases "scan_rows env 0 rows []")
    case (Inl x)
    then have "rows \<noteq> []" by (cases rows) auto
    with query Inl show ?thesis
      by (simp add: Index_Search_def errors_Is_def)
  next
    case (Inr res)
    with assms have "res = [] @ rows" by (rule scan_rows_complete)
    then show ?thesis using Inr query
      by (simp add: Index_Search_def errors_Is_def)
  qed
qed

text \<open>
  C1, at a failing iteration. The query runs and one row matches \<open>gold\<close>, but the context
  is cancelled before the first \<open>rows.Next()\<close>, which returns false: \<open>Index.Search\<close> returns
  \<open>ErrNotFoundKeyword\<close> although the query did not yield zero rows and the backend failed.
  With two rows matching \<open>some\<close> and the second \<open>rows.Next()\<close> failing, it returns the first
  row alone and no error.
\<close>

theorem Index_Search_iteration_error_lost:
  "sql_QueryContext (failing [(Next_row 0, err_canceled)]) mem ''gold'' (world0 (Some metals))
     = Inr [(2, ''struck gold'')] \<and>
   outcome (failing [(Next_row 0, err_canceled)]) (Next_row 0) = Some err_canceled \<and>
   fst (Search (failing [(Next_row 0, err_canceled)]) None ''gold'' (Index mem)
          (world0 (Some metals)))
     = ([], Some (Errorf_w ErrNotFoundKeyword ''gold'')) \<and>
   errors_Is (snd (fst (Search (failing [(Next_row 0, err_canceled)]) None ''gold'' (Index mem)
          (world0 (Some metals))))) ErrNotFoundKeyword \<and>
   sql_QueryContext (failing [(Next_row 1, err_canceled)]) mem ''some'' (world0 (Some metals))
     = Inr [(1, ''some data''), (3, ''some kind of copper'')] \<and>
   fst (Search (failing [(Next_row 1, err_canceled)]) None ''some'' (Index mem)
          (world0 (Some metals)))
     = ([(1, ''some data'')], None)"
  by (simp add: Index_Search_def sql_QueryContext_def errors_Is_def failing_def ok_env_def
      world0_def metals_def)

text \<open>The two searches of the package's test: one match, then none after the delete.\<close>

lemma Search_gold:
  "fst (Search ok_env None ''gold'' (Index mem) (world0 (Some metals)))
     = ([(2, ''struck gold'')], None)"
  by (simp add: Index_Search_def sql_QueryContext_def ok_env_def world0_def metals_def)

lemma Search_gold_after_Delete:
  "fst (Search ok_env None ''gold'' (Index mem)
          (snd (Delete ok_env None [2] (Index mem) (world0 (Some metals)))))
     = ([], Some (Errorf_w ErrNotFoundKeyword ''gold''))"
  by (simp add: Index_Search_def Index_Delete_def sql_QueryContext_def sql_BeginTx_def
      tx_delete_def tx_Commit_def ok_env_def world0_def metals_def)

section \<open>Index.Insert and Index.Delete\<close>

lemma Index_Insert_begin_error:
  "outcome env BeginTx = Some x \<Longrightarrow> Insert env ctx attrs (Index db) w = (Some (External x), w)"
  by (simp add: Index_Insert_def sql_BeginTx_def)

lemma Index_Delete_begin_error:
  "outcome env BeginTx = Some x \<Longrightarrow> Delete env ctx keys (Index db) w = (Some (External x), w)"
  by (simp add: Index_Delete_def sql_BeginTx_def)

lemma Index_Insert_exec_error:
  "outcome env BeginTx = None \<Longrightarrow> exec_inserts env 0 attrs (dbs w db) = Inl x
     \<Longrightarrow> Insert env ctx attrs (Index db) w = (Some (External x), w)"
  by (simp add: Index_Insert_def sql_BeginTx_def)

lemma Index_Delete_exec_error:
  "outcome env BeginTx = None \<Longrightarrow> exec_deletes env 0 keys (dbs w db) = Inl x
     \<Longrightarrow> Delete env ctx keys (Index db) w = (Some (External x), w)"
  by (simp add: Index_Delete_def sql_BeginTx_def)

text \<open>When the commit fails, what comes back is the result of the rollback, whatever the
  commit's error was.\<close>

lemma Index_Insert_commit_error:
  "outcome env BeginTx = None \<Longrightarrow> exec_inserts env 0 attrs (dbs w db) = Inr tx
     \<Longrightarrow> outcome env Commit = Some x
     \<Longrightarrow> Insert env ctx attrs (Index db) w = (extern (outcome env Rollback), w)"
  by (simp add: Index_Insert_def sql_BeginTx_def tx_Commit_def tx_Rollback_def)

lemma Index_Delete_commit_error:
  "outcome env BeginTx = None \<Longrightarrow> exec_deletes env 0 keys (dbs w db) = Inr tx
     \<Longrightarrow> outcome env Commit = Some x
     \<Longrightarrow> Delete env ctx keys (Index db) w = (extern (outcome env Rollback), w)"
  by (simp add: Index_Delete_def sql_BeginTx_def tx_Commit_def tx_Rollback_def)

text \<open>
  C2, at a failing commit. The driver reports \<open>database is locked\<close> from \<open>Commit\<close>; the
  transaction is then finished, so \<open>Rollback\<close> reports that it is already done. \<open>Insert\<close>
  and \<open>Delete\<close> of a one-element batch return the rollback's error, in which the commit's
  error is not found. When \<open>Commit\<close> instead refuses a context that is done, the
  transaction is still open, the rollback succeeds, and they return nil.
\<close>

theorem Index_commit_error_replaced:
  "outcome (failing [(Commit, err_locked), (Rollback, err_tx_done)]) Commit = Some err_locked \<and>
   fst (Insert (failing [(Commit, err_locked), (Rollback, err_tx_done)]) None
          [(5, ''just chips'')] (Index mem) (world0 (Some metals)))
     = Some (External err_tx_done) \<and>
   \<not> errors_Is (fst (Insert (failing [(Commit, err_locked), (Rollback, err_tx_done)]) None
          [(5, ''just chips'')] (Index mem) (world0 (Some metals)))) (External err_locked) \<and>
   fst (Delete (failing [(Commit, err_locked), (Rollback, err_tx_done)]) None
          [2] (Index mem) (world0 (Some metals)))
     = Some (External err_tx_done) \<and>
   \<not> errors_Is (fst (Delete (failing [(Commit, err_locked), (Rollback, err_tx_done)]) None
          [2] (Index mem) (world0 (Some metals)))) (External err_locked) \<and>
   outcome (failing [(Commit, err_canceled)]) Commit = Some err_canceled \<and>
   fst (Insert (failing [(Commit, err_canceled)]) None
          [(5, ''just chips'')] (Index mem) (world0 (Some metals))) = None \<and>
   fst (Delete (failing [(Commit, err_canceled)]) None
          [2] (Index mem) (world0 (Some metals))) = None"
  by (simp add: Index_Insert_def Index_Delete_def sql_BeginTx_def tx_insert_def tx_delete_def
      tx_Commit_def tx_Rollback_def extern_def errors_Is_def failing_def ok_env_def
      world0_def err_locked_def err_tx_done_def)

text \<open>
  C8, as stated, fails: on a closed database the transaction cannot begin, and \<open>Insert\<close>
  and \<open>Delete\<close> of an empty batch return that error.
\<close>

theorem empty_batch_error:
  "fst (Insert (failing [(BeginTx, err_closed)]) None [] (Index mem) (world0 (Some metals)))
     = Some (External err_closed) \<and>
   fst (Delete (failing [(BeginTx, err_closed)]) None [] (Index mem) (world0 (Some metals)))
     = Some (External err_closed)"
  by (simp add: Index_Insert_def Index_Delete_def sql_BeginTx_def failing_def ok_env_def)

text \<open>
  C8, amended. \<open>Insert\<close> and \<open>Delete\<close> of an empty batch leave the state as it was, in
  every case; they return no error when the backend begins and commits the empty
  transaction, and the error of a transaction that cannot begin.
\<close>

theorem empty_batch_unchanged:
  "snd (Insert env ctx [] (Index db) w) = w \<and>
   snd (Delete env ctx [] (Index db) w) = w \<and>
   (outcome env BeginTx = None \<and> outcome env Commit = None \<longrightarrow>
      fst (Insert env ctx [] (Index db) w) = None \<and>
      fst (Delete env ctx [] (Index db) w) = None) \<and>
   (\<forall>x. outcome env BeginTx = Some x \<longrightarrow>
      fst (Insert env ctx [] (Index db) w) = Some (External x) \<and>
      fst (Delete env ctx [] (Index db) w) = Some (External x))"
  by (simp add: Index_Insert_def Index_Delete_def sql_BeginTx_def tx_Commit_def
      split: option.splits)

theorem empty_batch_unchanged_witness:
  "outcome ok_env BeginTx = None \<and> outcome ok_env Commit = None \<and>
   Insert ok_env None [] (Index mem) (world0 (Some metals)) = (None, world0 (Some metals)) \<and>
   Delete ok_env None [] (Index mem) (world0 (Some metals)) = (None, world0 (Some metals)) \<and>
   outcome (failing [(BeginTx, err_closed)]) BeginTx = Some err_closed \<and>
   Insert (failing [(BeginTx, err_closed)]) None [] (Index mem) (world0 None)
     = (Some (External err_closed), world0 None)"
proof -
  have ok: "outcome ok_env BeginTx = None \<and> outcome ok_env Commit = None"
    by (simp add: ok_env_def)
  have bad: "outcome (failing [(BeginTx, err_closed)]) BeginTx = Some err_closed"
    by (simp add: failing_def)
  show ?thesis
    using ok bad
      empty_batch_unchanged [of ok_env None mem "world0 (Some metals)"]
      empty_batch_unchanged [of "failing [(BeginTx, err_closed)]" None mem "world0 None"]
    by (simp add: prod_eq_iff)
qed

section \<open>Decorating a decorated indexer\<close>

lemma IndexerWithLogs_logged:
  "IndexerWithLogs (Some (loggedIndexer i lg)) h =
     loggedIndexer i (slog_New (case h of None \<Rightarrow> TextHandler_Stderr | Some h0 \<Rightarrow> h0))"
  by (simp add: IndexerWithLogs_def)

lemma IndexerWithTrace_traced:
  "IndexerWithTrace (Some (tracedIndexer i t0)) tr =
     tracedIndexer i (case tr of None \<Rightarrow> NoopTracer | Some t1 \<Rightarrow> t1)"
  by (simp add: IndexerWithTrace_def)

text \<open>The eleven collectors have distinct names, so the registration never fails and
  \<open>metrics.New\<close> never returns an error.\<close>

lemma Registry_succeeds: "Registry = Inr collectors"
  by (simp add: Registry_def collectors_def)

lemma metrics_New_default:
  "metrics_New env 8080 w =
     (Inr \<lparr>sink_id = next_sink w, has_Shutdown = True, has_Close = False, sink_port = Some 8080\<rparr>,
      newServer env 8080
        (w\<lparr>counters := (counters w)(next_sink w := zero_counts), next_sink := Suc (next_sink w)\<rparr>))"
  by (simp add: metrics_New_def Registry_succeeds)

lemma IndexerWithMetrics_given:
  "IndexerWithMetrics env (Some (metricsIndexer i m0)) (Some m1) w = (metricsIndexer i m1, w)"
  by (simp add: IndexerWithMetrics_def)

lemma IndexerWithMetrics_default:
  "IndexerWithMetrics env (Some (metricsIndexer i m0)) None w =
     (metricsIndexer i
        \<lparr>sink_id = next_sink w, has_Shutdown = True, has_Close = False, sink_port = Some 8080\<rparr>,
      newServer env 8080
        (w\<lparr>counters := (counters w)(next_sink w := zero_counts), next_sink := Suc (next_sink w)\<rparr>))"
  by (simp add: IndexerWithMetrics_def metrics_New_default)

lemma newServer_panicked:
  "panicked (newServer env port w) =
     (panicked w \<or> (port \<noteq> 0 \<and> port \<in> set (listening w)) \<or> outcome env (net_Listen port) \<noteq> None)"
  by (auto simp: newServer_def)

lemma newServer_listening:
  "\<not> panicked (newServer env port w) \<Longrightarrow> port \<in> set (listening (newServer env port w))"
  by (simp add: newServer_def split: if_splits)

lemma IndexerWithMetrics_metrics:
  "\<exists>m'. fst (IndexerWithMetrics env (Some (metricsIndexer i m0)) m w) = metricsIndexer i m'"
  by (cases m) (simp_all add: IndexerWithMetrics_given IndexerWithMetrics_default)

lemma IndexerWithMetrics_stays_panicked:
  "panicked w \<Longrightarrow> panicked (snd (IndexerWithMetrics env ix m w))"
  by (cases ix)
     (auto simp: IndexerWithMetrics_def metrics_New_default newServer_panicked
       split: option.splits indexer.splits)

lemma relog_logged: "\<exists>lg'. relog (loggedIndexer i lg) hs = loggedIndexer i lg'"
  by (induction hs arbitrary: lg) (simp_all add: IndexerWithLogs_logged)

lemma retrace_traced: "\<exists>tr'. retrace (tracedIndexer i tr) ts = tracedIndexer i tr'"
  by (induction ts arbitrary: tr) (simp_all add: IndexerWithTrace_traced)

lemma remetric_metrics:
  "\<exists>m'. fst (remetric env (metricsIndexer i m) ms w) = metricsIndexer i m'"
proof (induction ms arbitrary: m w)
  case Nil
  show ?case by simp
next
  case (Cons a ms)
  obtain ix' w' where step: "IndexerWithMetrics env (Some (metricsIndexer i m)) a w = (ix', w')"
    by (cases "IndexerWithMetrics env (Some (metricsIndexer i m)) a w")
  then have "fst (IndexerWithMetrics env (Some (metricsIndexer i m)) a w) = ix'" by simp
  then obtain m1 where "ix' = metricsIndexer i m1"
    using IndexerWithMetrics_metrics [of env i m a w] by auto
  with step Cons.IH [of m1 w'] show ?case by simp
qed

lemma remetric_given:
  "remetric env (metricsIndexer i m0) (map Some ms) w = (metricsIndexer i (last (m0 # ms)), w)"
  by (induction ms arbitrary: m0) (simp_all add: IndexerWithMetrics_given)

lemma remetric_stays_panicked:
  "panicked w \<Longrightarrow> panicked (snd (remetric env ix ms w))"
proof (induction ms arbitrary: ix w)
  case Nil
  then show ?case by simp
next
  case (Cons a ms)
  obtain ix' w' where step: "IndexerWithMetrics env (Some ix) a w = (ix', w')"
    by (cases "IndexerWithMetrics env (Some ix) a w")
  with Cons.prems IndexerWithMetrics_stays_panicked [of w env "Some ix" a]
  have "panicked w'" by simp
  with step Cons.IH [of w' ix'] show ?case by simp
qed

text \<open>A second default sink in one process cannot bind port 8080 again: the process ends.\<close>

lemma second_default_sink_panics:
  "panicked (snd (remetric env (metricsIndexer i m0) (None # None # ms) w))"
proof -
  let ?w0 = "w\<lparr>counters := (counters w)(next_sink w := zero_counts),
               next_sink := Suc (next_sink w)\<rparr>"
  let ?w1 = "newServer env 8080 ?w0"
  let ?w2 = "?w1\<lparr>counters := (counters ?w1)(next_sink ?w1 := zero_counts),
                next_sink := Suc (next_sink ?w1)\<rparr>"
  have "panicked ?w1 \<or> 8080 \<in> set (listening ?w1)"
    using newServer_listening [of env 8080 ?w0] by blast
  then have "panicked (newServer env 8080 ?w2)"
    by (auto simp: newServer_panicked)
  then show ?thesis
    by (simp add: IndexerWithMetrics_default remetric_stays_panicked)
qed

text \<open>
  C3. Applying a decorator's constructor to an indexer already decorated that way returns a
  decorator of the same kind around the same delegate, with the given sink, or the default
  one when none is given, in place of the old one. However often the constructor is applied
  again, the delegate stays and the depth does not grow. (\<open>IndexerWithMetrics\<close> without a
  sink also starts the default sink's HTTP server on port 8080, whose goroutine panics when
  the port cannot be bound; repeated application is considered as long as the process has
  not panicked.)
\<close>

theorem redecorate_same_kind:
  "IndexerWithLogs (Some (loggedIndexer i lg)) h =
     loggedIndexer i (slog_New (case h of None \<Rightarrow> TextHandler_Stderr | Some h0 \<Rightarrow> h0)) \<and>
   IndexerWithTrace (Some (tracedIndexer i t0)) tr =
     tracedIndexer i (case tr of None \<Rightarrow> NoopTracer | Some t1 \<Rightarrow> t1) \<and>
   IndexerWithMetrics env (Some (metricsIndexer i m0)) (Some m1) w = (metricsIndexer i m1, w) \<and>
   fst (IndexerWithMetrics env (Some (metricsIndexer i m0)) None w) =
     metricsIndexer i
       \<lparr>sink_id = next_sink w, has_Shutdown = True, has_Close = False, sink_port = Some 8080\<rparr> \<and>
   panicked (snd (IndexerWithMetrics env (Some (metricsIndexer i m0)) None w)) =
     (panicked w \<or> 8080 \<in> set (listening w) \<or> outcome env (net_Listen 8080) \<noteq> None) \<and>
   (\<exists>lg'. relog (loggedIndexer i lg) hs = loggedIndexer i lg') \<and>
   depth (relog (loggedIndexer i lg) hs) = depth (loggedIndexer i lg) \<and>
   (\<exists>tr'. retrace (tracedIndexer i t0) ts = tracedIndexer i tr') \<and>
   depth (retrace (tracedIndexer i t0) ts) = depth (tracedIndexer i t0) \<and>
   remetric env (metricsIndexer i m0) (map Some ms') w = (metricsIndexer i (last (m0 # ms')), w) \<and>
   depth (fst (remetric env (metricsIndexer i m0) (map Some ms') w)) = depth (metricsIndexer i m0) \<and>
   (\<not> panicked (snd (remetric env (metricsIndexer i m0) ms w)) \<longrightarrow>
      (\<exists>m'. fst (remetric env (metricsIndexer i m0) ms w) = metricsIndexer i m') \<and>
      depth (fst (remetric env (metricsIndexer i m0) ms w)) = depth (metricsIndexer i m0))"
proof -
  obtain lg' where 1: "relog (loggedIndexer i lg) hs = loggedIndexer i lg'"
    using relog_logged by blast
  obtain tr' where 2: "retrace (tracedIndexer i t0) ts = tracedIndexer i tr'"
    using retrace_traced by blast
  obtain m' where 3: "fst (remetric env (metricsIndexer i m0) ms w) = metricsIndexer i m'"
    using remetric_metrics by blast
  have 4: "panicked (snd (IndexerWithMetrics env (Some (metricsIndexer i m0)) None w)) =
     (panicked w \<or> 8080 \<in> set (listening w) \<or> outcome env (net_Listen 8080) \<noteq> None)"
    by (simp add: IndexerWithMetrics_default newServer_panicked)
  have 5: "fst (IndexerWithMetrics env (Some (metricsIndexer i m0)) None w) =
     metricsIndexer i
       \<lparr>sink_id = next_sink w, has_Shutdown = True, has_Close = False, sink_port = Some 8080\<rparr>"
    by (simp add: IndexerWithMetrics_default)
  show ?thesis
    unfolding 1 2 3 4 5 remetric_given IndexerWithLogs_logged IndexerWithTrace_traced
      IndexerWithMetrics_given
    by simp
qed

theorem redecorate_same_kind_witness:
  "\<not> panicked (snd (remetric ok_env (metricsIndexer (Index mem) (prom 0))
                      [Some (prom 1), None, Some (prom 2)] (world0 None))) \<and>
   fst (remetric ok_env (metricsIndexer (Index mem) (prom 0))
          [Some (prom 1), None, Some (prom 2)] (world0 None))
     = metricsIndexer (Index mem) (prom 2) \<and>
   depth (fst (remetric ok_env (metricsIndexer (Index mem) (prom 0))
                 [Some (prom 1), None, Some (prom 2)] (world0 None))) = 1"
proof -
  let ?r = "remetric ok_env (metricsIndexer (Index mem) (prom 0))
              [Some (prom 1), None, Some (prom 2)] (world0 None)"
  have np: "\<not> panicked (snd ?r)"
    by (simp add: IndexerWithMetrics_given IndexerWithMetrics_default newServer_def
        ok_env_def world0_def)
  have v: "fst ?r = metricsIndexer (Index mem) (prom 2)"
    by (simp add: IndexerWithMetrics_given IndexerWithMetrics_default)
  from redecorate_same_kind
         [where env = ok_env and i = "Index mem" and ?m0.0 = "prom 0"
            and ms = "[Some (prom 1), None, Some (prom 2)]" and w = "world0 None"] np
  have "depth (fst ?r) = depth (metricsIndexer (Index mem) (prom 0))"
    by blast
  with np v show ?thesis by simp
qed

section \<open>Decorating nothing\<close>

text \<open>
  C4, as stated, fails for a no-op input: the constructors test for nil only, so the no-op
  indexer is wrapped like any other, and the metrics wrapper's \<open>Shutdown\<close> returns the error
  of its sink.
\<close>

theorem decorated_no_op_differs:
  "IndexerWithLogs (Some NoOp) (Some (Handler 0)) = loggedIndexer noOpIndexer (Logger (Handler 0)) \<and>
   IndexerWithLogs (Some NoOp) (Some (Handler 0)) \<noteq> NoOp \<and>
   IndexerWithTrace (Some NoOp) (Some (Tracer 0)) \<noteq> NoOp \<and>
   fst (IndexerWithMetrics ok_env (Some NoOp) (Some (prom 0)) (world0 None)) \<noteq> NoOp \<and>
   fst (Shutdown (failing [(Sink_Shutdown 0, err_server)]) None
          (fst (IndexerWithMetrics (failing [(Sink_Shutdown 0, err_server)])
                  (Some NoOp) (Some (prom 0)) (world0 None)))
          (world0 None))
     = Some (joinError [External err_server])"
  by (simp add: IndexerWithLogs_def IndexerWithTrace_def IndexerWithMetrics_def NoOp_def
      slog_New_def sink_release_def errors_Join_def extern_def failing_def prom_def)

text \<open>
  C4, amended. A constructor given the nil indexer returns the no-op indexer, whose four
  operations return nothing and no error and leave everything as it was. A constructor
  given the no-op indexer wraps it; the wrapper's \<open>Search\<close> returns no match and no
  error, its \<open>Insert\<close> and \<open>Delete\<close> no error, and its \<open>Shutdown\<close> no error for
  the log and trace wrappers and the join of the sink's release error for the metrics one.
\<close>

theorem decorate_nil_or_no_op:
  "IndexerWithLogs None h = NoOp \<and>
   IndexerWithMetrics env None m w = (NoOp, w) \<and>
   IndexerWithTrace None tr = NoOp \<and>
   Search env ctx searchTerm NoOp w = (([], None), w) \<and>
   Insert env ctx attrs NoOp w = (None, w) \<and>
   Delete env ctx keys NoOp w = (None, w) \<and>
   Shutdown env ctx NoOp w = (None, w) \<and>
   IndexerWithLogs (Some NoOp) h =
     loggedIndexer NoOp (slog_New (case h of None \<Rightarrow> TextHandler_Stderr | Some h0 \<Rightarrow> h0)) \<and>
   IndexerWithTrace (Some NoOp) tr =
     tracedIndexer NoOp (case tr of None \<Rightarrow> NoopTracer | Some t1 \<Rightarrow> t1) \<and>
   fst (IndexerWithMetrics env (Some NoOp) m w) =
     metricsIndexer NoOp
       (case m of
          Some m1 \<Rightarrow> m1
        | None \<Rightarrow> \<lparr>sink_id = next_sink w, has_Shutdown = True, has_Close = False,
                    sink_port = Some 8080\<rparr>) \<and>
   fst (Search env ctx searchTerm (loggedIndexer NoOp lg) w) = ([], None) \<and>
   fst (Search env ctx searchTerm (metricsIndexer NoOp m') w) = ([], None) \<and>
   fst (Search env ctx searchTerm (tracedIndexer NoOp tr') w) = ([], None) \<and>
   fst (Insert env ctx attrs (loggedIndexer NoOp lg) w) = None \<and>
   fst (Insert env ctx attrs (metricsIndexer NoOp m') w) = None \<and>
   fst (Insert env ctx attrs (tracedIndexer NoOp tr') w) = None \<and>
   fst (Delete env ctx keys (loggedIndexer NoOp lg) w) = None \<and>
   fst (Delete env ctx keys (metricsIndexer NoOp m') w) = None \<and>
   fst (Delete env ctx keys (tracedIndexer NoOp tr') w) = None \<and>
   fst (Shutdown env ctx (loggedIndexer NoOp lg) w) = None \<and>
   fst (Shutdown env ctx (tracedIndexer NoOp tr') w) = None \<and>
   fst (Shutdown env ctx (metricsIndexer NoOp m') w) =
     errors_Join [None, fst (sink_release env m' w)]"
proof -
  have ctor: "fst (IndexerWithMetrics env (Some NoOp) m w) =
     metricsIndexer NoOp
       (case m of
          Some m1 \<Rightarrow> m1
        | None \<Rightarrow> \<lparr>sink_id = next_sink w, has_Shutdown = True, has_Close = False,
                    sink_port = Some 8080\<rparr>)"
    by (cases m) (simp_all add: IndexerWithMetrics_def metrics_New_default NoOp_def)
  have traced: "fst (Search env ctx searchTerm (tracedIndexer NoOp tr') w) = ([], None)"
    "fst (Insert env ctx attrs (tracedIndexer NoOp tr') w) = None"
    "fst (Delete env ctx keys (tracedIndexer NoOp tr') w) = None"
    by (simp_all add: NoOp_def split: prod.splits)
  have metr: "fst (Shutdown env ctx (metricsIndexer NoOp m') w) =
     errors_Join [None, fst (sink_release env m' w)]"
    by (simp add: NoOp_def split: prod.splits)
  show ?thesis
    using ctor traced metr
    by (simp add: IndexerWithLogs_def IndexerWithTrace_def IndexerWithMetrics_def NoOp_def)
qed

section \<open>Shutdown\<close>

lemma Is_any_member: "e \<in> set es \<Longrightarrow> Is_any es e"
  by (induction es) (auto simp: Is_refl)

lemma errors_Join_Is:
  "Some e \<in> set es \<Longrightarrow> errors_Is (errors_Join es) e"
proof -
  assume "Some e \<in> set es"
  then have mem: "e \<in> set (non_nil es)"
    by (induction es rule: non_nil.induct) auto
  then obtain x xs where "non_nil es = x # xs" by (cases "non_nil es") auto
  with mem show ?thesis
    by (auto simp: errors_Join_def errors_Is_def Is_refl Is_any_member)
qed

lemma spans_log_record [simp]: "spans (log_record lg lv msg a w) = spans w"
  by (cases lg) (simp add: log_record_def)

lemma spans_sink_release [simp]: "spans (snd (sink_release env m w)) = spans w"
  by (simp add: sink_release_def)

lemma Shutdown_spans: "spans (snd (Shutdown env ctx ix w)) = spans w"
proof (induction ix arbitrary: w)
  case noOpIndexer
  show ?case by simp
next
  case (Index db)
  show ?case by (simp add: Index_Shutdown_def)
next
  case (loggedIndexer i lg)
  let ?w1 = "InfoContext lg ctx ''shutting down Indexer'' [] w"
  obtain er w2 where d: "Shutdown env ctx i ?w1 = (er, w2)"
    by (cases "Shutdown env ctx i ?w1")
  from loggedIndexer [of ?w1] d have "spans w2 = spans w"
    by (simp add: InfoContext_def)
  with d show ?case
    by (cases er) (simp_all add: WarnContext_def)
next
  case (metricsIndexer i m)
  obtain er w1 where r: "sink_release env m w = (er, w1)"
    by (cases "sink_release env m w")
  then have "spans w1 = spans w"
    using spans_sink_release [of env m w] by simp
  moreover obtain er' w2 where d: "Shutdown env ctx i w1 = (er', w2)"
    by (cases "Shutdown env ctx i w1")
  moreover from metricsIndexer [of w1] d have "spans w2 = spans w1" by simp
  ultimately show ?case using r by simp
next
  case (tracedIndexer i tr)
  then show ?case by simp
qed

text \<open>
  C6. \<open>metricsIndexer.Shutdown\<close> releases its sink by \<open>Shutdown\<close> when the sink has that
  method, else by \<open>Close\<close> when it has that one, else not at all; then it shuts the delegate
  down and returns \<open>errors.Join\<close> of the delegate's error and the sink's. Each of the two
  errors that is not nil is found in the result, and when both are not nil the result holds
  exactly the two. \<open>tracedIndexer.Shutdown\<close> is the delegate's \<open>Shutdown\<close> and nothing else,
  and no \<open>Shutdown\<close> starts a span or changes one.
\<close>

theorem Shutdown_metrics_joins_traced_delegates:
  "fst (sink_release env m w) =
     (if has_Shutdown m then extern (outcome env (Sink_Shutdown (sink_id m)))
      else if has_Close m then extern (outcome env (Sink_Close (sink_id m)))
      else None) \<and>
   releases (snd (sink_release env m w)) =
     releases w @ (if has_Shutdown m then [(sink_id m, ViaShutdown)]
                   else if has_Close m then [(sink_id m, ViaClose)]
                   else []) \<and>
   Shutdown env ctx (metricsIndexer i m) w =
     (errors_Join [fst (Shutdown env ctx i (snd (sink_release env m w))),
                   fst (sink_release env m w)],
      snd (Shutdown env ctx i (snd (sink_release env m w)))) \<and>
   (\<forall>e. fst (Shutdown env ctx i (snd (sink_release env m w))) = Some e \<or>
        fst (sink_release env m w) = Some e \<longrightarrow>
        errors_Is (fst (Shutdown env ctx (metricsIndexer i m) w)) e) \<and>
   (\<forall>d s. fst (Shutdown env ctx i (snd (sink_release env m w))) = Some d \<and>
          fst (sink_release env m w) = Some s \<longrightarrow>
          fst (Shutdown env ctx (metricsIndexer i m) w) = Some (joinError [d, s])) \<and>
   (fst (Shutdown env ctx i (snd (sink_release env m w))) = None \<and>
    fst (sink_release env m w) = None \<longrightarrow>
      fst (Shutdown env ctx (metricsIndexer i m) w) = None) \<and>
   Shutdown env ctx (tracedIndexer i tr) w = Shutdown env ctx i w \<and>
   spans (snd (Shutdown env ctx (tracedIndexer i tr) w)) = spans w"
proof -
  let ?s = "fst (sink_release env m w)"
  let ?d = "fst (Shutdown env ctx i (snd (sink_release env m w)))"
  have eq: "Shutdown env ctx (metricsIndexer i m) w =
      (errors_Join [?d, ?s], snd (Shutdown env ctx i (snd (sink_release env m w))))"
    by (simp add: split_beta)
  have found: "errors_Is (fst (Shutdown env ctx (metricsIndexer i m) w)) e"
    if "?d = Some e \<or> ?s = Some e" for e
  proof -
    from that have "Some e \<in> set [?d, ?s]" by auto
    then have "errors_Is (errors_Join [?d, ?s]) e" by (rule errors_Join_Is)
    then show ?thesis by (simp only: eq fst_conv)
  qed
  have both: "fst (Shutdown env ctx (metricsIndexer i m) w) = Some (joinError [d, s])"
    if "?d = Some d \<and> ?s = Some s" for d s
    using that by (simp only: eq fst_conv) (simp add: errors_Join_def)
  have none: "fst (Shutdown env ctx (metricsIndexer i m) w) = None"
    if "?d = None \<and> ?s = None"
    using that by (simp only: eq fst_conv) (simp add: errors_Join_def)
  have rel: "?s = (if has_Shutdown m then extern (outcome env (Sink_Shutdown (sink_id m)))
      else if has_Close m then extern (outcome env (Sink_Close (sink_id m)))
      else None)"
    "releases (snd (sink_release env m w)) =
     releases w @ (if has_Shutdown m then [(sink_id m, ViaShutdown)]
                   else if has_Close m then [(sink_id m, ViaClose)]
                   else [])"
    by (simp_all add: sink_release_def)
  have tr: "Shutdown env ctx (tracedIndexer i tr) w = Shutdown env ctx i w"
    by simp
  show ?thesis
    using rel eq found both none tr Shutdown_spans [of env ctx "tracedIndexer i tr" w]
    by blast
qed

theorem Shutdown_metrics_joins_traced_delegates_witness:
  "fst (Shutdown (failing [(DB_Close, err_closed), (Sink_Shutdown 0, err_server)]) None
          (metricsIndexer (Index mem) (prom 0)) (world0 None))
     = Some (joinError [External err_closed, External err_server]) \<and>
   errors_Is (fst (Shutdown (failing [(DB_Close, err_closed), (Sink_Shutdown 0, err_server)]) None
          (metricsIndexer (Index mem) (prom 0)) (world0 None))) (External err_closed) \<and>
   errors_Is (fst (Shutdown (failing [(DB_Close, err_closed), (Sink_Shutdown 0, err_server)]) None
          (metricsIndexer (Index mem) (prom 0)) (world0 None))) (External err_server) \<and>
   releases (snd (Shutdown (failing [(DB_Close, err_closed), (Sink_Shutdown 0, err_server)]) None
          (metricsIndexer (Index mem) (prom 0)) (world0 None))) = [(0, ViaShutdown)] \<and>
   fst (Shutdown ok_env None (metricsIndexer (Index mem) (prom 0)) (world0 None)) = None \<and>
   fst (Shutdown (failing [(DB_Close, err_closed)]) None
          (tracedIndexer (Index mem) (Tracer 0)) (world0 None)) = Some (External err_closed) \<and>
   spans (snd (Shutdown (failing [(DB_Close, err_closed)]) None
          (tracedIndexer (Index mem) (Tracer 0)) (world0 None))) = []"
proof -
  let ?env = "failing [(DB_Close, err_closed), (Sink_Shutdown 0, err_server)]"
  let ?r = "fst (Shutdown ?env None (metricsIndexer (Index mem) (prom 0)) (world0 None))"
  note T = Shutdown_metrics_joins_traced_delegates
             [of ?env "prom 0" "world0 None" None "Index mem" "Tracer 0"]
  have s: "fst (sink_release ?env (prom 0) (world0 None)) = Some (External err_server)"
    by (simp add: sink_release_def prom_def failing_def extern_def)
  have d: "fst (Shutdown ?env None (Index mem) (snd (sink_release ?env (prom 0) (world0 None))))
      = Some (External err_closed)"
    by (simp add: Index_Shutdown_def failing_def extern_def)
  from T s d have both: "?r = Some (joinError [External err_closed, External err_server])"
    by blast
  from T d have is1: "errors_Is ?r (External err_closed)"
    by blast
  from T s have is2: "errors_Is ?r (External err_server)"
    by blast
  have r: "releases (snd (Shutdown ?env None (metricsIndexer (Index mem) (prom 0)) (world0 None)))
      = [(0, ViaShutdown)]"
    by (simp add: Index_Shutdown_def sink_release_def prom_def world0_def split_beta)
  have ok: "fst (Shutdown ok_env None (metricsIndexer (Index mem) (prom 0)) (world0 None)) = None"
    by (simp add: Index_Shutdown_def sink_release_def prom_def ok_env_def extern_def
        errors_Join_def split_beta)
  have t: "fst (Shutdown (failing [(DB_Close, err_closed)]) None
          (tracedIndexer (Index mem) (Tracer 0)) (world0 None)) = Some (External err_closed)"
    "spans (snd (Shutdown (failing [(DB_Close, err_closed)]) None
          (tracedIndexer (Index mem) (Tracer 0)) (world0 None))) = []"
    by (simp_all add: Index_Shutdown_def failing_def extern_def world0_def)
  from both is1 is2 r ok t show ?thesis
    by (intro conjI)
qed

section \<open>New\<close>

text \<open>The configuration built from options that set each field to one value only does not
  depend on their order or number.\<close>

lemma cfg_Set_fields:
  "set opts \<subseteq> {WithURI u, WithLogHandler (Some h), WithMetrics (Some m), WithTrace (Some t)}
   \<Longrightarrow> cfg_Set c opts =
       Some \<lparr>uri = (if WithURI u \<in> set opts then u else uri c),
             logHandler = (if WithLogHandler (Some h) \<in> set opts then Some h else logHandler c),
             metrics = (if WithMetrics (Some m) \<in> set opts then Some m else metrics c),
             tracer = (if WithTrace (Some t) \<in> set opts then Some t else tracer c)\<rparr>"
proof (induction opts arbitrary: c)
  case Nil
  show ?case by simp
next
  case (Cons x opts)
  from Cons.prems have rest:
    "set opts \<subseteq> {WithURI u, WithLogHandler (Some h), WithMetrics (Some m), WithTrace (Some t)}"
    by simp
  from Cons.prems consider "x = WithURI u" | "x = WithLogHandler (Some h)"
    | "x = WithMetrics (Some m)" | "x = WithTrace (Some t)"
    by auto
  then show ?case
  proof cases
    case 1
    then show ?thesis using Cons.IH [OF rest, of "c\<lparr>uri := u\<rparr>"] by simp
  next
    case 2
    then show ?thesis using Cons.IH [OF rest, of "c\<lparr>logHandler := Some h\<rparr>"] by simp
  next
    case 3
    then show ?thesis using Cons.IH [OF rest, of "c\<lparr>metrics := Some m\<rparr>"] by simp
  next
    case 4
    then show ?thesis using Cons.IH [OF rest, of "c\<lparr>tracer := Some t\<rparr>"] by simp
  qed
qed

lemma New_layers:
  assumes "cfg_New opts = Some config"
    and "NewIndex env (uri config) attrs w = (Inr db, w1)"
  shows "New env attrs opts w =
     Some (((let i1 = (case logHandler config of
                         None \<Rightarrow> Index db
                       | Some h \<Rightarrow> loggedIndexer (Index db) (Logger h));
                 i2 = (case metrics config of
                         None \<Rightarrow> i1
                       | Some m \<Rightarrow> metricsIndexer i1 m)
             in (case tracer config of
                   None \<Rightarrow> i2
                 | Some t \<Rightarrow> tracedIndexer i2 t)), None), w1)"
  using assms
  by (cases "logHandler config"; cases "metrics config"; cases "tracer config")
     (simp_all add: New_def IndexerWithLogs_def IndexerWithMetrics_def IndexerWithTrace_def
       slog_New_def)

text \<open>
  C5. When the backend is constructed, \<open>New\<close> wraps the index in a log decorator if a log
  handler is configured, then in a metrics decorator if a metrics sink is configured, then
  in a trace decorator if a tracer is configured, and in no other order. Given options that
  set the location, a log handler, a metrics sink and a tracer, in any order and any number
  of times, the result is the trace decorator around the metrics decorator around the log
  decorator around the index.
\<close>

theorem New_log_metrics_trace:
  "(cfg_New opts = Some config \<and> NewIndex env (uri config) attrs w = (Inr db, w1) \<longrightarrow>
      New env attrs opts w =
        Some (((let i1 = (case logHandler config of
                            None \<Rightarrow> Index db
                          | Some h \<Rightarrow> loggedIndexer (Index db) (Logger h));
                    i2 = (case metrics config of
                            None \<Rightarrow> i1
                          | Some m \<Rightarrow> metricsIndexer i1 m)
                in (case tracer config of
                      None \<Rightarrow> i2
                    | Some t \<Rightarrow> tracedIndexer i2 t)), None), w1)) \<and>
   (set opts' = {WithURI u, WithLogHandler (Some h), WithMetrics (Some m), WithTrace (Some t)} \<and>
    NewIndex env u attrs w = (Inr db, w1) \<longrightarrow>
      New env attrs opts' w =
        Some ((tracedIndexer (metricsIndexer (loggedIndexer (Index db) (Logger h)) m) t, None),
              w1))"
proof (intro conjI impI)
  assume "cfg_New opts = Some config \<and> NewIndex env (uri config) attrs w = (Inr db, w1)"
  then show "New env attrs opts w =
        Some (((let i1 = (case logHandler config of
                            None \<Rightarrow> Index db
                          | Some h \<Rightarrow> loggedIndexer (Index db) (Logger h));
                    i2 = (case metrics config of
                            None \<Rightarrow> i1
                          | Some m \<Rightarrow> metricsIndexer i1 m)
                in (case tracer config of
                      None \<Rightarrow> i2
                    | Some t \<Rightarrow> tracedIndexer i2 t)), None), w1)"
    using New_layers by blast
next
  assume a: "set opts' = {WithURI u, WithLogHandler (Some h), WithMetrics (Some m), WithTrace (Some t)} \<and>
    NewIndex env u attrs w = (Inr db, w1)"
  then have "set opts' \<subseteq> {WithURI u, WithLogHandler (Some h), WithMetrics (Some m), WithTrace (Some t)}"
    by simp
  from cfg_Set_fields [OF this, of zero_Config] a
  have c: "cfg_New opts' = Some \<lparr>uri = u, logHandler = Some h, metrics = Some m, tracer = Some t\<rparr>"
    by (simp add: cfg_New_def)
  from a have "NewIndex env (uri \<lparr>uri = u, logHandler = Some h, metrics = Some m, tracer = Some t\<rparr>)
      attrs w = (Inr db, w1)"
    by simp
  from New_layers [OF c this]
  show "New env attrs opts' w =
        Some ((tracedIndexer (metricsIndexer (loggedIndexer (Index db) (Logger h)) m) t, None),
              w1)"
    by simp
qed

lemma NewIndex_in_memory:
  "fst (NewIndex ok_env [] metals (world0 None)) = Inr mem"
  by (simp add: NewIndex_def open_db_def inMemory_def uriFormat_def Open_def initDatabase_def
      createTable_def Index_Insert_def sql_BeginTx_def tx_insert_def tx_Commit_def ok_env_def world0_def
      mem_def metals_def)

theorem New_log_metrics_trace_witness:
  "map_option fst
     (New ok_env metals
        [WithTrace (Some (Tracer 2)), WithMetrics (Some (prom 1)), WithURI [],
         WithLogHandler (Some (Handler 0))]
        (world0 None))
     = Some (tracedIndexer (metricsIndexer (loggedIndexer (Index mem) (Logger (Handler 0))) (prom 1))
               (Tracer 2), None) \<and>
   map_option fst
     (New ok_env metals
        [WithLogHandler (Some (Handler 0)), WithURI [], WithMetrics (Some (prom 1)),
         WithTrace (Some (Tracer 2))]
        (world0 None))
     = Some (tracedIndexer (metricsIndexer (loggedIndexer (Index mem) (Logger (Handler 0))) (prom 1))
               (Tracer 2), None) \<and>
   map_option fst (New ok_env metals [WithTrace (Some (Tracer 2)), WithLogHandler (Some (Handler 0))]
        (world0 None))
     = Some (tracedIndexer (loggedIndexer (Index mem) (Logger (Handler 0))) (Tracer 2), None)"
proof -
  let ?w1 = "snd (NewIndex ok_env [] metals (world0 None))"
  have n: "NewIndex ok_env [] metals (world0 None) = (Inr mem, ?w1)"
    using NewIndex_in_memory by (simp add: prod_eq_iff)
  have s1: "set [WithTrace (Some (Tracer 2)), WithMetrics (Some (prom 1)), WithURI [],
         WithLogHandler (Some (Handler 0))]
     = {WithURI [], WithLogHandler (Some (Handler 0)), WithMetrics (Some (prom 1)),
        WithTrace (Some (Tracer 2))}"
    by auto
  have s2: "set [WithLogHandler (Some (Handler 0)), WithURI [], WithMetrics (Some (prom 1)),
         WithTrace (Some (Tracer 2))]
     = {WithURI [], WithLogHandler (Some (Handler 0)), WithMetrics (Some (prom 1)),
        WithTrace (Some (Tracer 2))}"
    by auto
  have c: "cfg_New [WithTrace (Some (Tracer 2)), WithLogHandler (Some (Handler 0))]
      = Some \<lparr>uri = [], logHandler = Some (Handler 0), metrics = None, tracer = Some (Tracer 2)\<rparr>"
    by (simp add: cfg_New_def zero_Config_def)
  have n': "NewIndex ok_env
       (uri \<lparr>uri = [], logHandler = Some (Handler 0), metrics = None, tracer = Some (Tracer 2)\<rparr>)
       metals (world0 None) = (Inr mem, ?w1)"
    using n by simp
  note A = New_log_metrics_trace [THEN conjunct2, rule_format, OF conjI, OF s1 n]
  note B = New_log_metrics_trace [THEN conjunct2, rule_format, OF conjI, OF s2 n]
  note C = New_log_metrics_trace [THEN conjunct1, rule_format, OF conjI, OF c n']
  show ?thesis
    unfolding A B C by simp
qed

text \<open>
  C7. When the construction of the backend fails, \<open>New\<close> returns the no-op indexer together
  with the construction error; and an error returned by \<open>New\<close> is always the construction
  error, with the no-op indexer beside it.
\<close>

theorem New_construction_error:
  "cfg_New opts = Some config \<longrightarrow>
     (\<forall>e w1. NewIndex env (uri config) attrs w = (Inl e, w1) \<longrightarrow>
        New env attrs opts w = Some ((NoOp, Some e), w1)) \<and>
     (\<forall>i e w'. New env attrs opts w = Some ((i, Some e), w') \<longrightarrow>
        i = NoOp \<and> NewIndex env (uri config) attrs w = (Inl e, w'))"
proof (intro impI conjI allI)
  fix e w1
  assume "cfg_New opts = Some config" "NewIndex env (uri config) attrs w = (Inl e, w1)"
  then show "New env attrs opts w = Some ((NoOp, Some e), w1)"
    by (simp add: New_def)
next
  fix i e w'
  assume c: "cfg_New opts = Some config" and r: "New env attrs opts w = Some ((i, Some e), w')"
  obtain x w1 where n: "NewIndex env (uri config) attrs w = (x, w1)"
    by (cases "NewIndex env (uri config) attrs w")
  show "i = NoOp"
  proof (cases x)
    case (Inl a)
    with c r n show ?thesis by (simp add: New_def)
  next
    case (Inr db)
    with c n have "\<exists>i'. New env attrs opts w = Some ((i', None), w1)"
      using New_layers [of opts config env attrs w db w1] by simp
    with r show ?thesis by auto
  qed
  show "NewIndex env (uri config) attrs w = (Inl e, w')"
  proof (cases x)
    case (Inl a)
    with c r n show ?thesis by (simp add: New_def)
  next
    case (Inr db)
    with c n have "\<exists>i'. New env attrs opts w = Some ((i', None), w1)"
      using New_layers [of opts config env attrs w db w1] by simp
    with r show ?thesis by auto
  qed
qed

theorem New_construction_error_witness:
  "cfg_New [WithLogHandler (Some (Handler 0)), WithURI ''/data'']
     = Some \<lparr>uri = ''/data'', logHandler = Some (Handler 0), metrics = None, tracer = None\<rparr> \<and>
   NewIndex ok_env ''/data'' metals (world0 None)
     = (Inl (Errorf ''/data is a directory''), world0 None) \<and>
   New ok_env metals [WithLogHandler (Some (Handler 0)), WithURI ''/data''] (world0 None)
     = Some ((NoOp, Some (Errorf ''/data is a directory'')), world0 None)"
proof -
  have c: "cfg_New [WithLogHandler (Some (Handler 0)), WithURI ''/data'']
     = Some \<lparr>uri = ''/data'', logHandler = Some (Handler 0), metrics = None, tracer = None\<rparr>"
    by (simp add: cfg_New_def zero_Config_def)
  have n: "NewIndex ok_env ''/data'' metals (world0 None)
     = (Inl (Errorf ''/data is a directory''), world0 None)"
    by (simp add: NewIndex_def open_db_def inMemory_def validateURI_def Stat_def ok_env_def
        world0_def)
  then have n': "NewIndex ok_env
      (uri \<lparr>uri = ''/data'', logHandler = Some (Handler 0), metrics = None, tracer = None\<rparr>)
      metals (world0 None) = (Inl (Errorf ''/data is a directory''), world0 None)"
    by simp
  from New_construction_error [rule_format, OF c, THEN conjunct1, rule_format, OF n'] c n
  show ?thesis by simp
qed

section \<open>Opening a location\<close>

text \<open>
  C9. For the empty string and for \<open>:memory:\<close>, \<open>open\<close> asks \<open>sql.Open\<close> for the in-memory
  data source and touches no file. Any other string is a path: when nothing is there the
  file is created (and, the file closed, \<open>sql.Open\<close> is asked for that file); when a file is
  there it is opened as it is; when a directory is there \<open>open\<close> returns an error and no
  connection, and changes nothing.
\<close>

theorem open_location:
  "open_db env [] w = (Open env ''file::memory:?cache=shared'', w) \<and>
   open_db env '':memory:'' w = (Open env ''file::memory:?cache=shared'', w) \<and>
   (outcome env (sql_Open ''file::memory:?cache=shared'') = None \<longrightarrow>
      open_db env [] w = (Inr ''file::memory:?cache=shared'', w) \<and>
      open_db env '':memory:'' w = (Inr ''file::memory:?cache=shared'', w)) \<and>
   (u \<noteq> [] \<and> u \<noteq> '':memory:'' \<and> files w u = Some Dir \<longrightarrow>
      (\<exists>e. open_db env u w = (Inl e, w)) \<and>
      (outcome env (os_Stat u) = None \<longrightarrow>
         open_db env u w = (Inl (Errorf (u @ '' is a directory'')), w))) \<and>
   (u \<noteq> [] \<and> u \<noteq> '':memory:'' \<and> files w u = None \<and> outcome env (os_Stat u) = None \<longrightarrow>
      (\<forall>x. outcome env (os_Create u) = Some x \<longrightarrow>
         open_db env u w = (Inl (PathError ''open'' u (External x)), w)) \<and>
      (outcome env (os_Create u) = None \<longrightarrow>
         snd (open_db env u w) = w\<lparr>files := (files w)(u \<mapsto> File)\<rparr> \<and>
         (outcome env (File_Close u) = None \<longrightarrow>
            fst (open_db env u w) = Open env (''file:'' @ u @ ''?cache=shared'')))) \<and>
   (u \<noteq> [] \<and> u \<noteq> '':memory:'' \<and> files w u = Some File \<and> outcome env (os_Stat u) = None \<longrightarrow>
      open_db env u w = (Open env (''file:'' @ u @ ''?cache=shared''), w))"
proof -
  have mem: "open_db env [] w = (Open env ''file::memory:?cache=shared'', w)"
    "open_db env '':memory:'' w = (Open env ''file::memory:?cache=shared'', w)"
    by (simp_all add: open_db_def inMemory_def uriFormat_def)
  have conn: "open_db env [] w = (Inr ''file::memory:?cache=shared'', w) \<and>
      open_db env '':memory:'' w = (Inr ''file::memory:?cache=shared'', w)"
    if "outcome env (sql_Open ''file::memory:?cache=shared'') = None"
    using that by (simp add: mem Open_def)
  have dir: "(\<exists>e. open_db env u w = (Inl e, w)) \<and>
      (outcome env (os_Stat u) = None \<longrightarrow>
         open_db env u w = (Inl (Errorf (u @ '' is a directory'')), w))"
    if "u \<noteq> [] \<and> u \<noteq> '':memory:'' \<and> files w u = Some Dir"
    using that
    by (cases "outcome env (os_Stat u)")
       (simp_all add: open_db_def inMemory_def validateURI_def Stat_def errors_Is_def)
  have absent: "(\<forall>x. outcome env (os_Create u) = Some x \<longrightarrow>
         open_db env u w = (Inl (PathError ''open'' u (External x)), w)) \<and>
      (outcome env (os_Create u) = None \<longrightarrow>
         snd (open_db env u w) = w\<lparr>files := (files w)(u \<mapsto> File)\<rparr> \<and>
         (outcome env (File_Close u) = None \<longrightarrow>
            fst (open_db env u w) = Open env (''file:'' @ u @ ''?cache=shared'')))"
    if "u \<noteq> [] \<and> u \<noteq> '':memory:'' \<and> files w u = None \<and> outcome env (os_Stat u) = None"
    using that
    by (cases "outcome env (os_Create u)"; cases "outcome env (File_Close u)")
       (simp_all add: open_db_def inMemory_def validateURI_def Stat_def Create_def errors_Is_def
         extern_def uriFormat_def)
  have regular: "open_db env u w = (Open env (''file:'' @ u @ ''?cache=shared''), w)"
    if "u \<noteq> [] \<and> u \<noteq> '':memory:'' \<and> files w u = Some File \<and> outcome env (os_Stat u) = None"
    using that
    by (simp add: open_db_def inMemory_def validateURI_def Stat_def uriFormat_def)
  from mem conn dir absent regular show ?thesis
    by blast
qed

theorem open_location_witness:
  "open_db ok_env [] (world0 None) = (Inr ''file::memory:?cache=shared'', world0 None) \<and>
   open_db ok_env '':memory:'' (world0 None) = (Inr ''file::memory:?cache=shared'', world0 None) \<and>
   open_db ok_env ''/data'' (world0 None) = (Inl (Errorf ''/data is a directory''), world0 None) \<and>
   fst (open_db ok_env ''/data/new.db'' (world0 None)) = Inr ''file:/data/new.db?cache=shared'' \<and>
   files (snd (open_db ok_env ''/data/new.db'' (world0 None))) ''/data/new.db'' = Some File \<and>
   files (world0 None) ''/data/new.db'' = None \<and>
   open_db ok_env ''/data/index.db'' (world0 None)
     = (Inr ''file:/data/index.db?cache=shared'', world0 None)"
proof -
  have o: "outcome ok_env c = None" for c
    by (simp add: ok_env_def)
  have f: "files (world0 None) ''/data'' = Some Dir"
    "files (world0 None) ''/data/new.db'' = None"
    "files (world0 None) ''/data/index.db'' = Some File"
    by (simp_all add: world0_def)
  note T = open_location [of ok_env "world0 None"]
  have 1: "open_db ok_env [] (world0 None) = (Inr ''file::memory:?cache=shared'', world0 None)"
    "open_db ok_env '':memory:'' (world0 None) = (Inr ''file::memory:?cache=shared'', world0 None)"
    using T [of "[]", THEN conjunct2, THEN conjunct2, THEN conjunct1, rule_format, OF o]
    by (rule conjunct1, rule conjunct2)
  have 2: "open_db ok_env ''/data'' (world0 None) = (Inl (Errorf ''/data is a directory''), world0 None)"
    using T [of "''/data''"] o f(1) by simp
  have 3: "snd (open_db ok_env ''/data/new.db'' (world0 None))
             = (world0 None)\<lparr>files := (files (world0 None))(''/data/new.db'' \<mapsto> File)\<rparr>"
    "fst (open_db ok_env ''/data/new.db'' (world0 None))
       = Open ok_env (''file:'' @ ''/data/new.db'' @ ''?cache=shared'')"
    using T [of "''/data/new.db''"] o f(2) by simp_all
  have 4: "open_db ok_env ''/data/index.db'' (world0 None)
     = (Open ok_env (''file:'' @ ''/data/index.db'' @ ''?cache=shared''), world0 None)"
    using T [of "''/data/index.db''"] o f(3) by simp
  show ?thesis
    unfolding 1 2 3 4 using f(2) by (simp add: Open_def o)
qed

section \<open>What the metrics decorator counts\<close>

lemma counters_upd_counts:
  "counters (upd_counts m f w) n = (if n = sink_id m then f (counters w n) else counters w n)"
  by (simp add: upd_counts_def)

lemma counters_log_record [simp]: "counters (log_record lg lv msg a w) = counters w"
  by (cases lg) (simp add: log_record_def)

lemma counters_span_upd [simp]: "counters (span_upd sp f w) = counters w"
  by (simp add: span_upd_def split: option.splits)

lemma counters_tracer_Start [simp]: "counters (snd (tracer_Start tr ctx n a w)) = counters w"
  by (cases tr) (simp_all add: tracer_Start_def)

lemma counters_tx_Commit [simp]: "counters (snd (tx_Commit env db tx w)) = counters w"
  by (simp add: tx_Commit_def split: option.splits)

lemma counters_Index_Insert [simp]:
  "counters (snd (Index_Insert env ctx attrs db w)) = counters w"
proof -
  have "counters (snd (case tx_Commit env db tx w of
                         (None, w') \<Rightarrow> (None, w')
                       | (Some e, w') \<Rightarrow> (extern (tx_Rollback env), w'))) = counters w" for tx
    using counters_tx_Commit [of env db tx w]
    by (cases "tx_Commit env db tx w") (auto split: option.splits)
  then show ?thesis
    by (simp add: Index_Insert_def split: sum.splits)
qed

lemma counters_Index_Delete [simp]:
  "counters (snd (Index_Delete env ctx keys db w)) = counters w"
proof -
  have "counters (snd (case tx_Commit env db tx w of
                         (None, w') \<Rightarrow> (None, w')
                       | (Some e, w') \<Rightarrow> (extern (tx_Rollback env), w'))) = counters w" for tx
    using counters_tx_Commit [of env db tx w]
    by (cases "tx_Commit env db tx w") (auto split: option.splits)
  then show ?thesis
    by (simp add: Index_Delete_def split: sum.splits)
qed

text \<open>An indexer changes the series of no sink but those of its metrics decorators.\<close>

lemma Search_counters:
  "n \<notin> sinks_of ix \<Longrightarrow> counters (snd (Search env ctx searchTerm ix w)) n = counters w n"
proof (induction ix arbitrary: ctx w)
  case noOpIndexer
  show ?case by simp
next
  case (Index db)
  show ?case by simp
next
  case (loggedIndexer i lg)
  let ?w1 = "InfoContext lg ctx ''finding matches for search term''
               [A_term ''search_term'' searchTerm] w"
  obtain res er w2 where d: "Search env ctx searchTerm i ?w1 = ((res, er), w2)"
    by (cases "Search env ctx searchTerm i ?w1") auto
  from loggedIndexer.IH [of ctx ?w1] loggedIndexer.prems d
  have "counters w2 n = counters w n" by (simp add: InfoContext_def)
  with d show ?case
    by (cases er) (simp_all add: WarnContext_def)
next
  case (metricsIndexer i m)
  let ?w1 = "IncSearchesTotal m w"
  obtain res er w2 where d: "Search env ctx searchTerm i ?w1 = ((res, er), w2)"
    by (cases "Search env ctx searchTerm i ?w1") auto
  from metricsIndexer.prems have ne: "n \<noteq> sink_id m" and ni: "n \<notin> sinks_of i" by auto
  from metricsIndexer.IH [of ctx ?w1] ni d ne
  have "counters w2 n = counters w n"
    by (simp add: IncSearchesTotal_def counters_upd_counts)
  with d ne show ?case
    by (simp add: IncSearchesFailed_def ObserveSearchLatency_def counters_upd_counts)
next
  case (tracedIndexer i tr)
  obtain ctx' sp w1 where s: "tracer_Start tr ctx ''search''
      [S_string ''search_term'' (fmt_v env searchTerm)] w = ((ctx', sp), w1)"
    by (cases "tracer_Start tr ctx ''search'' [S_string ''search_term'' (fmt_v env searchTerm)] w")
       auto
  then have c1: "counters w1 = counters w"
    using counters_tracer_Start [of tr ctx "''search''"
        "[S_string ''search_term'' (fmt_v env searchTerm)]" w] by simp
  obtain res er w2 where d: "Search env ctx' searchTerm i w1 = ((res, er), w2)"
    by (cases "Search env ctx' searchTerm i w1") auto
  from tracedIndexer.IH [of ctx' w1] tracedIndexer.prems d c1
  have "counters w2 n = counters w n" by simp
  with s d show ?case
    by (cases er)
       (simp_all add: span_End_def span_SetAttributes_def span_RecordError_def span_SetStatus_def)
qed

lemma Insert_counters:
  "n \<notin> sinks_of ix \<Longrightarrow> counters (snd (Insert env ctx attrs ix w)) n = counters w n"
proof (induction ix arbitrary: ctx w)
  case noOpIndexer
  show ?case by simp
next
  case (Index db)
  show ?case by simp
next
  case (loggedIndexer i lg)
  let ?w1 = "InfoContext lg ctx ''inserting attributes'' [A_int ''num_attributes'' (length attrs)] w"
  obtain er w2 where d: "Insert env ctx attrs i ?w1 = (er, w2)"
    by (cases "Insert env ctx attrs i ?w1")
  from loggedIndexer.IH [of ctx ?w1] loggedIndexer.prems d
  have "counters w2 n = counters w n" by (simp add: InfoContext_def)
  with d show ?case
    by (cases er) (simp_all add: WarnContext_def)
next
  case (metricsIndexer i m)
  let ?w1 = "IncInsertsTotal m w"
  obtain er w2 where d: "Insert env ctx attrs i ?w1 = (er, w2)"
    by (cases "Insert env ctx attrs i ?w1")
  from metricsIndexer.prems have ne: "n \<noteq> sink_id m" and ni: "n \<notin> sinks_of i" by auto
  from metricsIndexer.IH [of ctx ?w1] ni d ne
  have "counters w2 n = counters w n"
    by (simp add: IncInsertsTotal_def counters_upd_counts)
  with d ne show ?case
    by (simp add: IncInsertsFailed_def ObserveInsertLatency_def counters_upd_counts)
next
  case (tracedIndexer i tr)
  obtain ctx' sp w1 where s: "tracer_Start tr ctx ''insert''
      [S_int ''num_attributes'' (length attrs)] w = ((ctx', sp), w1)"
    by (cases "tracer_Start tr ctx ''insert'' [S_int ''num_attributes'' (length attrs)] w") auto
  then have c1: "counters w1 = counters w"
    using counters_tracer_Start [of tr ctx "''insert''"
        "[S_int ''num_attributes'' (length attrs)]" w] by simp
  obtain er w2 where d: "Insert env ctx' attrs i w1 = (er, w2)"
    by (cases "Insert env ctx' attrs i w1")
  from tracedIndexer.IH [of ctx' w1] tracedIndexer.prems d c1
  have "counters w2 n = counters w n" by simp
  with s d show ?case
    by (cases er) (simp_all add: span_End_def span_RecordError_def span_SetStatus_def)
qed

lemma Delete_counters:
  "n \<notin> sinks_of ix \<Longrightarrow> counters (snd (Delete env ctx keys ix w)) n = counters w n"
proof (induction ix arbitrary: ctx w)
  case noOpIndexer
  show ?case by simp
next
  case (Index db)
  show ?case by simp
next
  case (loggedIndexer i lg)
  let ?w1 = "InfoContext lg ctx ''deleting keys'' [A_keys ''keys'' keys] w"
  obtain er w2 where d: "Delete env ctx keys i ?w1 = (er, w2)"
    by (cases "Delete env ctx keys i ?w1")
  from loggedIndexer.IH [of ctx ?w1] loggedIndexer.prems d
  have "counters w2 n = counters w n" by (simp add: InfoContext_def)
  with d show ?case
    by (cases er) (simp_all add: WarnContext_def)
next
  case (metricsIndexer i m)
  let ?w1 = "IncDeletesTotal m w"
  obtain er w2 where d: "Delete env ctx keys i ?w1 = (er, w2)"
    by (cases "Delete env ctx keys i ?w1")
  from metricsIndexer.prems have ne: "n \<noteq> sink_id m" and ni: "n \<notin> sinks_of i" by auto
  from metricsIndexer.IH [of ctx ?w1] ni d ne
  have "counters w2 n = counters w n"
    by (simp add: IncDeletesTotal_def counters_upd_counts)
  with d ne show ?case
    by (simp add: IncDeletesFailed_def ObserveDeleteLatency_def counters_upd_counts)
next
  case (tracedIndexer i tr)
  obtain ctx' sp w1 where s: "tracer_Start tr ctx ''delete''
      [S_int ''num_keys'' (length keys)] w = ((ctx', sp), w1)"
    by (cases "tracer_Start tr ctx ''delete'' [S_int ''num_keys'' (length keys)] w") auto
  then have c1: "counters w1 = counters w"
    using counters_tracer_Start [of tr ctx "''delete''" "[S_int ''num_keys'' (length keys)]" w]
    by simp
  obtain er w2 where d: "Delete env ctx' keys i w1 = (er, w2)"
    by (cases "Delete env ctx' keys i w1")
  from tracedIndexer.IH [of ctx' w1] tracedIndexer.prems d c1
  have "counters w2 n = counters w n" by simp
  with s d show ?case
    by (cases er) (simp_all add: span_End_def span_RecordError_def span_SetStatus_def)
qed

lemma sql_QueryContext_upd_counts [simp]:
  "sql_QueryContext env db searchTerm (upd_counts m f w) = sql_QueryContext env db searchTerm w"
  by (cases "outcome env (QueryContext_search searchTerm)")
     (simp_all add: sql_QueryContext_def upd_counts_def)

lemma metrics_Search_counts:
  assumes "sink_id m \<notin> sinks_of i"
  shows "fst (Search env ctx searchTerm (metricsIndexer i m) w)
           = fst (Search env ctx searchTerm i (IncSearchesTotal m w))"
    and "searchesTotal (counters (snd (Search env ctx searchTerm (metricsIndexer i m) w)) (sink_id m))
           = Suc (searchesTotal (counters w (sink_id m)))"
    and "searchesFailed (counters (snd (Search env ctx searchTerm (metricsIndexer i m) w)) (sink_id m))
           = (if snd (fst (Search env ctx searchTerm (metricsIndexer i m) w)) = None
              then searchesFailed (counters w (sink_id m))
              else Suc (searchesFailed (counters w (sink_id m))))"
proof -
  let ?w1 = "IncSearchesTotal m w"
  obtain res er w2 where d: "Search env ctx searchTerm i ?w1 = ((res, er), w2)"
    by (cases "Search env ctx searchTerm i ?w1") auto
  from Search_counters [OF assms, of env ctx searchTerm ?w1] d
  have c2: "counters w2 (sink_id m) = counters ?w1 (sink_id m)" by simp
  show "fst (Search env ctx searchTerm (metricsIndexer i m) w)
           = fst (Search env ctx searchTerm i (IncSearchesTotal m w))"
    using d by simp
  show "searchesTotal (counters (snd (Search env ctx searchTerm (metricsIndexer i m) w)) (sink_id m))
           = Suc (searchesTotal (counters w (sink_id m)))"
    using d c2
    by (simp add: IncSearchesTotal_def IncSearchesFailed_def ObserveSearchLatency_def
        counters_upd_counts)
  show "searchesFailed (counters (snd (Search env ctx searchTerm (metricsIndexer i m) w)) (sink_id m))
           = (if snd (fst (Search env ctx searchTerm (metricsIndexer i m) w)) = None
              then searchesFailed (counters w (sink_id m))
              else Suc (searchesFailed (counters w (sink_id m))))"
    using d c2
    by (simp add: IncSearchesTotal_def IncSearchesFailed_def ObserveSearchLatency_def
        counters_upd_counts)
qed

lemma metrics_Insert_counts:
  assumes "sink_id m \<notin> sinks_of i"
  shows "fst (Insert env ctx attrs (metricsIndexer i m) w)
           = fst (Insert env ctx attrs i (IncInsertsTotal m w))"
    and "insertsTotal (counters (snd (Insert env ctx attrs (metricsIndexer i m) w)) (sink_id m))
           = Suc (insertsTotal (counters w (sink_id m)))"
    and "insertsFailed (counters (snd (Insert env ctx attrs (metricsIndexer i m) w)) (sink_id m))
           = (if fst (Insert env ctx attrs (metricsIndexer i m) w) = None
              then insertsFailed (counters w (sink_id m))
              else Suc (insertsFailed (counters w (sink_id m))))"
proof -
  let ?w1 = "IncInsertsTotal m w"
  obtain er w2 where d: "Insert env ctx attrs i ?w1 = (er, w2)"
    by (cases "Insert env ctx attrs i ?w1")
  from Insert_counters [OF assms, of env ctx attrs ?w1] d
  have c2: "counters w2 (sink_id m) = counters ?w1 (sink_id m)" by simp
  show "fst (Insert env ctx attrs (metricsIndexer i m) w)
           = fst (Insert env ctx attrs i (IncInsertsTotal m w))"
    using d by simp
  show "insertsTotal (counters (snd (Insert env ctx attrs (metricsIndexer i m) w)) (sink_id m))
           = Suc (insertsTotal (counters w (sink_id m)))"
    using d c2
    by (simp add: IncInsertsTotal_def IncInsertsFailed_def ObserveInsertLatency_def
        counters_upd_counts)
  show "insertsFailed (counters (snd (Insert env ctx attrs (metricsIndexer i m) w)) (sink_id m))
           = (if fst (Insert env ctx attrs (metricsIndexer i m) w) = None
              then insertsFailed (counters w (sink_id m))
              else Suc (insertsFailed (counters w (sink_id m))))"
    using d c2
    by (simp add: IncInsertsTotal_def IncInsertsFailed_def ObserveInsertLatency_def
        counters_upd_counts)
qed

lemma metrics_Delete_counts:
  assumes "sink_id m \<notin> sinks_of i"
  shows "fst (Delete env ctx keys (metricsIndexer i m) w)
           = fst (Delete env ctx keys i (IncDeletesTotal m w))"
    and "deletesTotal (counters (snd (Delete env ctx keys (metricsIndexer i m) w)) (sink_id m))
           = Suc (deletesTotal (counters w (sink_id m)))"
    and "deletesFailed (counters (snd (Delete env ctx keys (metricsIndexer i m) w)) (sink_id m))
           = (if fst (Delete env ctx keys (metricsIndexer i m) w) = None
              then deletesFailed (counters w (sink_id m))
              else Suc (deletesFailed (counters w (sink_id m))))"
proof -
  let ?w1 = "IncDeletesTotal m w"
  obtain er w2 where d: "Delete env ctx keys i ?w1 = (er, w2)"
    by (cases "Delete env ctx keys i ?w1")
  from Delete_counters [OF assms, of env ctx keys ?w1] d
  have c2: "counters w2 (sink_id m) = counters ?w1 (sink_id m)" by simp
  show "fst (Delete env ctx keys (metricsIndexer i m) w)
           = fst (Delete env ctx keys i (IncDeletesTotal m w))"
    using d by simp
  show "deletesTotal (counters (snd (Delete env ctx keys (metricsIndexer i m) w)) (sink_id m))
           = Suc (deletesTotal (counters w (sink_id m)))"
    using d c2
    by (simp add: IncDeletesTotal_def IncDeletesFailed_def ObserveDeleteLatency_def
        counters_upd_counts)
  show "deletesFailed (counters (snd (Delete env ctx keys (metricsIndexer i m) w)) (sink_id m))
           = (if fst (Delete env ctx keys (metricsIndexer i m) w) = None
              then deletesFailed (counters w (sink_id m))
              else Suc (deletesFailed (counters w (sink_id m))))"
    using d c2
    by (simp add: IncDeletesTotal_def IncDeletesFailed_def ObserveDeleteLatency_def
        counters_upd_counts)
qed

text \<open>The decorator returns what its delegate returns, the delegate being called once the
  received counter is incremented, and it changes the counters of its sink, as the delegate
  left them, by the failed counter alone, which goes up by one when the delegate's error is
  not nil.\<close>

lemma metrics_Search_delegate:
  "fst (Search env ctx searchTerm (metricsIndexer i m) w)
     = fst (Search env ctx searchTerm i (IncSearchesTotal m w))"
  "searchesTotal (counters (IncSearchesTotal m w) (sink_id m))
     = Suc (searchesTotal (counters w (sink_id m)))"
  "searchesTotal (counters (snd (Search env ctx searchTerm (metricsIndexer i m) w)) (sink_id m))
     = searchesTotal (counters (snd (Search env ctx searchTerm i (IncSearchesTotal m w))) (sink_id m))"
  "searchesFailed (counters (snd (Search env ctx searchTerm (metricsIndexer i m) w)) (sink_id m))
     = (if snd (fst (Search env ctx searchTerm i (IncSearchesTotal m w))) = None
        then searchesFailed
               (counters (snd (Search env ctx searchTerm i (IncSearchesTotal m w))) (sink_id m))
        else Suc (searchesFailed
               (counters (snd (Search env ctx searchTerm i (IncSearchesTotal m w))) (sink_id m))))"
proof -
  obtain res er w2 where d: "Search env ctx searchTerm i (IncSearchesTotal m w) = ((res, er), w2)"
    by (cases "Search env ctx searchTerm i (IncSearchesTotal m w)") auto
  show "fst (Search env ctx searchTerm (metricsIndexer i m) w)
     = fst (Search env ctx searchTerm i (IncSearchesTotal m w))"
    using d by simp
  show "searchesTotal (counters (IncSearchesTotal m w) (sink_id m))
     = Suc (searchesTotal (counters w (sink_id m)))"
    by (simp add: IncSearchesTotal_def counters_upd_counts)
  show "searchesTotal (counters (snd (Search env ctx searchTerm (metricsIndexer i m) w)) (sink_id m))
     = searchesTotal (counters (snd (Search env ctx searchTerm i (IncSearchesTotal m w))) (sink_id m))"
    using d by (simp add: IncSearchesFailed_def ObserveSearchLatency_def counters_upd_counts)
  show "searchesFailed (counters (snd (Search env ctx searchTerm (metricsIndexer i m) w)) (sink_id m))
     = (if snd (fst (Search env ctx searchTerm i (IncSearchesTotal m w))) = None
        then searchesFailed
               (counters (snd (Search env ctx searchTerm i (IncSearchesTotal m w))) (sink_id m))
        else Suc (searchesFailed
               (counters (snd (Search env ctx searchTerm i (IncSearchesTotal m w))) (sink_id m))))"
    using d by (simp add: IncSearchesFailed_def ObserveSearchLatency_def counters_upd_counts)
qed

lemma metrics_Insert_delegate:
  "fst (Insert env ctx attrs (metricsIndexer i m) w)
     = fst (Insert env ctx attrs i (IncInsertsTotal m w))"
  "insertsTotal (counters (IncInsertsTotal m w) (sink_id m))
     = Suc (insertsTotal (counters w (sink_id m)))"
  "insertsTotal (counters (snd (Insert env ctx attrs (metricsIndexer i m) w)) (sink_id m))
     = insertsTotal (counters (snd (Insert env ctx attrs i (IncInsertsTotal m w))) (sink_id m))"
  "insertsFailed (counters (snd (Insert env ctx attrs (metricsIndexer i m) w)) (sink_id m))
     = (if fst (Insert env ctx attrs i (IncInsertsTotal m w)) = None
        then insertsFailed
               (counters (snd (Insert env ctx attrs i (IncInsertsTotal m w))) (sink_id m))
        else Suc (insertsFailed
               (counters (snd (Insert env ctx attrs i (IncInsertsTotal m w))) (sink_id m))))"
proof -
  obtain er w2 where d: "Insert env ctx attrs i (IncInsertsTotal m w) = (er, w2)"
    by (cases "Insert env ctx attrs i (IncInsertsTotal m w)")
  show "fst (Insert env ctx attrs (metricsIndexer i m) w)
     = fst (Insert env ctx attrs i (IncInsertsTotal m w))"
    using d by simp
  show "insertsTotal (counters (IncInsertsTotal m w) (sink_id m))
     = Suc (insertsTotal (counters w (sink_id m)))"
    by (simp add: IncInsertsTotal_def counters_upd_counts)
  show "insertsTotal (counters (snd (Insert env ctx attrs (metricsIndexer i m) w)) (sink_id m))
     = insertsTotal (counters (snd (Insert env ctx attrs i (IncInsertsTotal m w))) (sink_id m))"
    using d by (simp add: IncInsertsFailed_def ObserveInsertLatency_def counters_upd_counts)
  show "insertsFailed (counters (snd (Insert env ctx attrs (metricsIndexer i m) w)) (sink_id m))
     = (if fst (Insert env ctx attrs i (IncInsertsTotal m w)) = None
        then insertsFailed
               (counters (snd (Insert env ctx attrs i (IncInsertsTotal m w))) (sink_id m))
        else Suc (insertsFailed
               (counters (snd (Insert env ctx attrs i (IncInsertsTotal m w))) (sink_id m))))"
    using d by (simp add: IncInsertsFailed_def ObserveInsertLatency_def counters_upd_counts)
qed

lemma metrics_Delete_delegate:
  "fst (Delete env ctx keys (metricsIndexer i m) w)
     = fst (Delete env ctx keys i (IncDeletesTotal m w))"
  "deletesTotal (counters (IncDeletesTotal m w) (sink_id m))
     = Suc (deletesTotal (counters w (sink_id m)))"
  "deletesTotal (counters (snd (Delete env ctx keys (metricsIndexer i m) w)) (sink_id m))
     = deletesTotal (counters (snd (Delete env ctx keys i (IncDeletesTotal m w))) (sink_id m))"
  "deletesFailed (counters (snd (Delete env ctx keys (metricsIndexer i m) w)) (sink_id m))
     = (if fst (Delete env ctx keys i (IncDeletesTotal m w)) = None
        then deletesFailed
               (counters (snd (Delete env ctx keys i (IncDeletesTotal m w))) (sink_id m))
        else Suc (deletesFailed
               (counters (snd (Delete env ctx keys i (IncDeletesTotal m w))) (sink_id m))))"
proof -
  obtain er w2 where d: "Delete env ctx keys i (IncDeletesTotal m w) = (er, w2)"
    by (cases "Delete env ctx keys i (IncDeletesTotal m w)")
  show "fst (Delete env ctx keys (metricsIndexer i m) w)
     = fst (Delete env ctx keys i (IncDeletesTotal m w))"
    using d by simp
  show "deletesTotal (counters (IncDeletesTotal m w) (sink_id m))
     = Suc (deletesTotal (counters w (sink_id m)))"
    by (simp add: IncDeletesTotal_def counters_upd_counts)
  show "deletesTotal (counters (snd (Delete env ctx keys (metricsIndexer i m) w)) (sink_id m))
     = deletesTotal (counters (snd (Delete env ctx keys i (IncDeletesTotal m w))) (sink_id m))"
    using d by (simp add: IncDeletesFailed_def ObserveDeleteLatency_def counters_upd_counts)
  show "deletesFailed (counters (snd (Delete env ctx keys (metricsIndexer i m) w)) (sink_id m))
     = (if fst (Delete env ctx keys i (IncDeletesTotal m w)) = None
        then deletesFailed
               (counters (snd (Delete env ctx keys i (IncDeletesTotal m w))) (sink_id m))
        else Suc (deletesFailed
               (counters (snd (Delete env ctx keys i (IncDeletesTotal m w))) (sink_id m))))"
    using d by (simp add: IncDeletesFailed_def ObserveDeleteLatency_def counters_upd_counts)
qed

text \<open>
  C10. For every delegate and every sink, a metrics decorator adds one to the received
  counter of the operation, calls the delegate, returns what the delegate returned, and
  adds one to the failed counter of the operation exactly when the error the delegate
  returned is not nil, whatever the error; it changes neither counter otherwise. When the
  delegate does not report to the same sink, the received counter is therefore one more
  than before the call, and the failed counter one more if and only if the call returns an
  error. A search over the index that runs and matches nothing returns
  \<open>ErrNotFoundKeyword\<close>, so it is counted once as received and once as failed.
\<close>

theorem metrics_failed_counts_every_error:
  "(fst (Search env ctx searchTerm (metricsIndexer i m) w)
      = fst (Search env ctx searchTerm i (IncSearchesTotal m w)) \<and>
    searchesTotal (counters (IncSearchesTotal m w) (sink_id m))
      = Suc (searchesTotal (counters w (sink_id m))) \<and>
    searchesTotal (counters (snd (Search env ctx searchTerm (metricsIndexer i m) w)) (sink_id m))
      = searchesTotal (counters (snd (Search env ctx searchTerm i (IncSearchesTotal m w))) (sink_id m)) \<and>
    searchesFailed (counters (snd (Search env ctx searchTerm (metricsIndexer i m) w)) (sink_id m))
      = (if snd (fst (Search env ctx searchTerm i (IncSearchesTotal m w))) = None
         then searchesFailed
                (counters (snd (Search env ctx searchTerm i (IncSearchesTotal m w))) (sink_id m))
         else Suc (searchesFailed
                (counters (snd (Search env ctx searchTerm i (IncSearchesTotal m w))) (sink_id m)))) \<and>
    fst (Insert env ctx attrs (metricsIndexer i m) w)
      = fst (Insert env ctx attrs i (IncInsertsTotal m w)) \<and>
    insertsTotal (counters (IncInsertsTotal m w) (sink_id m))
      = Suc (insertsTotal (counters w (sink_id m))) \<and>
    insertsTotal (counters (snd (Insert env ctx attrs (metricsIndexer i m) w)) (sink_id m))
      = insertsTotal (counters (snd (Insert env ctx attrs i (IncInsertsTotal m w))) (sink_id m)) \<and>
    insertsFailed (counters (snd (Insert env ctx attrs (metricsIndexer i m) w)) (sink_id m))
      = (if fst (Insert env ctx attrs i (IncInsertsTotal m w)) = None
         then insertsFailed
                (counters (snd (Insert env ctx attrs i (IncInsertsTotal m w))) (sink_id m))
         else Suc (insertsFailed
                (counters (snd (Insert env ctx attrs i (IncInsertsTotal m w))) (sink_id m)))) \<and>
    fst (Delete env ctx keys (metricsIndexer i m) w)
      = fst (Delete env ctx keys i (IncDeletesTotal m w)) \<and>
    deletesTotal (counters (IncDeletesTotal m w) (sink_id m))
      = Suc (deletesTotal (counters w (sink_id m))) \<and>
    deletesTotal (counters (snd (Delete env ctx keys (metricsIndexer i m) w)) (sink_id m))
      = deletesTotal (counters (snd (Delete env ctx keys i (IncDeletesTotal m w))) (sink_id m)) \<and>
    deletesFailed (counters (snd (Delete env ctx keys (metricsIndexer i m) w)) (sink_id m))
      = (if fst (Delete env ctx keys i (IncDeletesTotal m w)) = None
         then deletesFailed
                (counters (snd (Delete env ctx keys i (IncDeletesTotal m w))) (sink_id m))
         else Suc (deletesFailed
                (counters (snd (Delete env ctx keys i (IncDeletesTotal m w))) (sink_id m))))) \<and>
   (sink_id m \<notin> sinks_of i \<longrightarrow>
      searchesTotal (counters (snd (Search env ctx searchTerm (metricsIndexer i m) w)) (sink_id m))
        = Suc (searchesTotal (counters w (sink_id m))) \<and>
      searchesFailed (counters (snd (Search env ctx searchTerm (metricsIndexer i m) w)) (sink_id m))
        = (if snd (fst (Search env ctx searchTerm (metricsIndexer i m) w)) = None
           then searchesFailed (counters w (sink_id m))
           else Suc (searchesFailed (counters w (sink_id m)))) \<and>
      insertsTotal (counters (snd (Insert env ctx attrs (metricsIndexer i m) w)) (sink_id m))
        = Suc (insertsTotal (counters w (sink_id m))) \<and>
      insertsFailed (counters (snd (Insert env ctx attrs (metricsIndexer i m) w)) (sink_id m))
        = (if fst (Insert env ctx attrs (metricsIndexer i m) w) = None
           then insertsFailed (counters w (sink_id m))
           else Suc (insertsFailed (counters w (sink_id m)))) \<and>
      deletesTotal (counters (snd (Delete env ctx keys (metricsIndexer i m) w)) (sink_id m))
        = Suc (deletesTotal (counters w (sink_id m))) \<and>
      deletesFailed (counters (snd (Delete env ctx keys (metricsIndexer i m) w)) (sink_id m))
        = (if fst (Delete env ctx keys (metricsIndexer i m) w) = None
           then deletesFailed (counters w (sink_id m))
           else Suc (deletesFailed (counters w (sink_id m))))) \<and>
   (sql_QueryContext env db searchTerm w = Inr [] \<longrightarrow>
      errors_Is (snd (fst (Search env ctx searchTerm (metricsIndexer (Index db) m) w)))
        ErrNotFoundKeyword \<and>
      searchesTotal (counters (snd (Search env ctx searchTerm (metricsIndexer (Index db) m) w))
                       (sink_id m))
        = Suc (searchesTotal (counters w (sink_id m))) \<and>
      searchesFailed (counters (snd (Search env ctx searchTerm (metricsIndexer (Index db) m) w))
                        (sink_id m))
        = Suc (searchesFailed (counters w (sink_id m))))"
proof -
  have zero: "errors_Is (snd (fst (Search env ctx searchTerm (metricsIndexer (Index db) m) w)))
        ErrNotFoundKeyword \<and>
      searchesTotal (counters (snd (Search env ctx searchTerm (metricsIndexer (Index db) m) w))
                       (sink_id m))
        = Suc (searchesTotal (counters w (sink_id m))) \<and>
      searchesFailed (counters (snd (Search env ctx searchTerm (metricsIndexer (Index db) m) w))
                        (sink_id m))
        = Suc (searchesFailed (counters w (sink_id m)))"
    if q: "sql_QueryContext env db searchTerm w = Inr []"
  proof -
    have free: "sink_id m \<notin> sinks_of (Index db)" by simp
    have r: "fst (Search env ctx searchTerm (metricsIndexer (Index db) m) w)
        = ([], Some (Errorf_w ErrNotFoundKeyword (fmt_v env searchTerm)))"
      unfolding metrics_Search_counts(1) [OF free]
      using q by (simp add: Index_Search_def IncSearchesTotal_def)
    then have a: "errors_Is (snd (fst (Search env ctx searchTerm (metricsIndexer (Index db) m) w)))
        ErrNotFoundKeyword"
      by (simp only: snd_conv) (simp add: errors_Is_def)
    have b: "searchesTotal
        (counters (snd (Search env ctx searchTerm (metricsIndexer (Index db) m) w)) (sink_id m))
        = Suc (searchesTotal (counters w (sink_id m)))"
      by (rule metrics_Search_counts(2) [OF free])
    have c: "searchesFailed
        (counters (snd (Search env ctx searchTerm (metricsIndexer (Index db) m) w)) (sink_id m))
        = Suc (searchesFailed (counters w (sink_id m)))"
      unfolding metrics_Search_counts(3) [OF free] r by simp
    from a b c show ?thesis
      by (intro conjI)
  qed
  show ?thesis
    by (intro conjI impI;
        (rule metrics_Search_delegate metrics_Insert_delegate metrics_Delete_delegate
              metrics_Search_counts metrics_Insert_counts metrics_Delete_counts
              zero [THEN conjunct1] zero [THEN conjunct2, THEN conjunct1]
              zero [THEN conjunct2, THEN conjunct2]);
        assumption?)
qed

theorem metrics_failed_counts_every_error_witness:
  "fst (Search ok_env None ''silver'' (metricsIndexer (Index mem) (prom 0)) (world0 (Some metals)))
     = ([], Some (Errorf_w ErrNotFoundKeyword ''silver'')) \<and>
   searchesTotal (counters (world0 (Some metals)) 0) = 0 \<and>
   searchesFailed (counters (world0 (Some metals)) 0) = 0 \<and>
   searchesTotal (counters (snd (Search ok_env None ''silver''
        (metricsIndexer (Index mem) (prom 0)) (world0 (Some metals)))) 0) = 1 \<and>
   searchesFailed (counters (snd (Search ok_env None ''silver''
        (metricsIndexer (Index mem) (prom 0)) (world0 (Some metals)))) 0) = 1 \<and>
   insertsFailed (counters (snd (Insert (failing [(BeginTx, err_closed)]) None metals
        (metricsIndexer (loggedIndexer (Index mem) (Logger (Handler 0))) (prom 0))
        (world0 (Some metals)))) 0) = 1 \<and>
   fst (Delete (failing [(BeginTx, err_closed)]) None [2]
        (metricsIndexer (Index mem) (prom 0)) (world0 (Some metals)))
     = Some (External err_closed) \<and>
   deletesFailed (counters (snd (Delete (failing [(BeginTx, err_closed)]) None [2]
        (metricsIndexer (Index mem) (prom 0)) (world0 (Some metals)))) 0) = 1 \<and>
   deletesFailed (counters (snd (Delete ok_env None [2]
        (metricsIndexer (Index mem) (prom 0)) (world0 (Some metals)))) 0) = 0"
proof -
  have q: "sql_QueryContext ok_env mem ''silver'' (world0 (Some metals)) = Inr []"
    by (simp add: sql_QueryContext_def ok_env_def world0_def metals_def)
  have z: "searchesTotal (counters (world0 (Some metals)) 0) = 0"
    "searchesFailed (counters (world0 (Some metals)) 0) = 0"
    "insertsFailed (counters (world0 (Some metals)) 0) = 0"
    "deletesFailed (counters (world0 (Some metals)) 0) = 0"
    by (simp_all add: world0_def zero_counts_def)
  have s: "sink_id (prom 0) = 0" by (simp add: prom_def)
  have r: "fst (Search ok_env None ''silver'' (metricsIndexer (Index mem) (prom 0))
                 (world0 (Some metals)))
     = ([], Some (Errorf_w ErrNotFoundKeyword ''silver''))"
    using q by (simp add: Index_Search_def IncSearchesTotal_def ok_env_def)
  note T = metrics_failed_counts_every_error
             [where env = ok_env and db = mem and searchTerm = "''silver''"
                and w = "world0 (Some metals)" and ctx = None and m = "prom 0",
              THEN conjunct2, THEN conjunct2, rule_format, OF q]
  have free: "sink_id (prom 0) \<notin> sinks_of (loggedIndexer (Index mem) (Logger (Handler 0)))"
    by simp
  note U = metrics_failed_counts_every_error
             [where m = "prom 0" and i = "loggedIndexer (Index mem) (Logger (Handler 0))"
                and env = "failing [(BeginTx, err_closed)]" and ctx = None
                and w = "world0 (Some metals)" and attrs = metals,
              THEN conjunct2, THEN conjunct1, rule_format, OF free]
  have free': "sink_id (prom 0) \<notin> sinks_of (Index mem)"
    by simp
  note D = metrics_failed_counts_every_error
             [where m = "prom 0" and i = "Index mem"
                and env = "failing [(BeginTx, err_closed)]" and ctx = None
                and w = "world0 (Some metals)" and keys = "[2]",
              THEN conjunct2, THEN conjunct1, rule_format, OF free']
  note D' = metrics_failed_counts_every_error
             [where m = "prom 0" and i = "Index mem" and env = ok_env and ctx = None
                and w = "world0 (Some metals)" and keys = "[2]",
              THEN conjunct2, THEN conjunct1, rule_format, OF free']
  have e: "fst (Insert (failing [(BeginTx, err_closed)]) None metals
        (metricsIndexer (loggedIndexer (Index mem) (Logger (Handler 0))) (prom 0))
        (world0 (Some metals))) = Some (External err_closed)"
    by (simp add: Index_Insert_def sql_BeginTx_def failing_def)
  have e': "fst (Delete (failing [(BeginTx, err_closed)]) None [2]
        (metricsIndexer (Index mem) (prom 0)) (world0 (Some metals)))
     = Some (External err_closed)"
    by (simp add: Index_Delete_def sql_BeginTx_def failing_def)
  have e'': "fst (Delete ok_env None [2]
        (metricsIndexer (Index mem) (prom 0)) (world0 (Some metals))) = None"
    by (simp add: Index_Delete_def sql_BeginTx_def tx_delete_def tx_Commit_def ok_env_def
        world0_def IncDeletesTotal_def upd_counts_def split_beta)
  from T z s have t: "searchesTotal (counters (snd (Search ok_env None ''silver''
        (metricsIndexer (Index mem) (prom 0)) (world0 (Some metals)))) 0) = 1"
    "searchesFailed (counters (snd (Search ok_env None ''silver''
        (metricsIndexer (Index mem) (prom 0)) (world0 (Some metals)))) 0) = 1"
    by simp_all
  from U e z s have u: "insertsFailed (counters (snd (Insert (failing [(BeginTx, err_closed)]) None metals
        (metricsIndexer (loggedIndexer (Index mem) (Logger (Handler 0))) (prom 0))
        (world0 (Some metals)))) 0) = 1"
    by simp
  from D e' z s have d: "deletesFailed (counters (snd (Delete (failing [(BeginTx, err_closed)]) None [2]
        (metricsIndexer (Index mem) (prom 0)) (world0 (Some metals)))) 0) = 1"
    by simp
  from D' e'' z s have d': "deletesFailed (counters (snd (Delete ok_env None [2]
        (metricsIndexer (Index mem) (prom 0)) (world0 (Some metals)))) 0) = 0"
    by simp
  from r z(1,2) t u e' d d' show ?thesis
    by (intro conjI)
qed

end
